theory Spec2Isabelle
  imports Complex_Main "HOL-Library.Word"
begin

unbundle bit_operations_syntax

section \<open>Register map and constants of tmp117.py\<close>

type_synonym byte = "8 word"

definition TEMP_RESULT :: byte where "TEMP_RESULT = 0x00"
definition CONFIGURATION :: byte where "CONFIGURATION = 0x01"
definition T_HIGH_LIMIT :: byte where "T_HIGH_LIMIT = 0x02"
definition T_LOW_LIMIT :: byte where "T_LOW_LIMIT = 0x03"
definition EEPROM_UL :: byte where "EEPROM_UL = 0x04"
definition EEPROM1 :: byte where "EEPROM1 = 0x05"
definition EEPROM2 :: byte where "EEPROM2 = 0x06"
definition TEMP_OFFSET :: byte where "TEMP_OFFSET = 0x07"
definition EEPROM3 :: byte where "EEPROM3 = 0x08"
definition DEVICE_ID :: byte where "DEVICE_ID = 0x0F"
definition DEVICE_ID_VALUE :: int where "DEVICE_ID_VALUE = 0x0117"

text \<open>
  The resolution is \<open>2 ^ -7\<close>, a power of two. Multiplying a 16-bit count by it and
  dividing a value of magnitude at most 256 by it are exact in binary floating point,
  so the Python floats of the driver are modelled by the reals they denote.
\<close>

definition TMP117_RESOLUTION :: real where "TMP117_RESOLUTION = 0.0078125"

definition CONTINUOUS_CONVERSION_MODE :: int where "CONTINUOUS_CONVERSION_MODE = 0"
definition ONE_SHOT_MODE :: int where "ONE_SHOT_MODE = 3"
definition SHUTDOWN_MODE :: int where "SHUTDOWN_MODE = 1"

definition MEASUREMENTMODE_CONTINUOUS :: int where "MEASUREMENTMODE_CONTINUOUS = 0"
definition MEASUREMENTMODE_ONE_SHOT :: int where "MEASUREMENTMODE_ONE_SHOT = 3"
definition MEASUREMENTMODE_SHUTDOWN :: int where "MEASUREMENTMODE_SHUTDOWN = 1"

text \<open>
  The exceptions the driver can end with. \<open>ValueError\<close> is the range error of the
  setters, \<open>AttributeError\<close> the identification error of the constructor, and
  \<open>PackError\<close> the failure of \<open>struct.pack_into\<close> on a count that does not fit the
  register format.
\<close>

datatype error = ValueError | AttributeError | PackError

record AlertStatus =
  high_alert :: bool
  low_alert :: bool

section \<open>The bus and the log of what happens on it\<close>

text \<open>
  The constructor receives the I2C bus as an argument. It is a pair of operations on a
  hardware state \<open>'h\<close> the driver knows nothing about: the register read
  (\<open>write_then_readinto\<close> of the one-byte register pointer, then two bytes read) and the
  register write (pointer and two bytes). Bus faults are not modelled.
\<close>

record 'h i2c_device =
  i2c_write_then_readinto :: "byte \<Rightarrow> 'h \<Rightarrow> (byte \<times> byte) \<times> 'h"
  i2c_write :: "byte \<Rightarrow> byte \<times> byte \<Rightarrow> 'h \<Rightarrow> 'h"

text \<open>
  Every bus transaction and every \<open>time.sleep\<close> (in seconds) is appended to a log, so
  that the order of the driver's effects can be stated.
\<close>

datatype event =
    BusRead byte "byte \<times> byte"
  | BusWrite byte "byte \<times> byte"
  | Sleep real

record 'h world =
  hw :: 'h
  log :: "event list"

definition readinto :: "'h i2c_device \<Rightarrow> byte \<Rightarrow> 'h world \<Rightarrow> (byte \<times> byte) \<times> 'h world" where
  "readinto bus reg w =
     (case i2c_write_then_readinto bus reg (hw w) of
        (bs, h) \<Rightarrow> (bs, \<lparr>hw = h, log = log w @ [BusRead reg bs]\<rparr>))"

definition writeout :: "'h i2c_device \<Rightarrow> byte \<Rightarrow> byte \<times> byte \<Rightarrow> 'h world \<Rightarrow> 'h world" where
  "writeout bus reg bs w =
     \<lparr>hw = i2c_write bus reg bs (hw w), log = log w @ [BusWrite reg bs]\<rparr>"

definition sleep :: "real \<Rightarrow> 'h world \<Rightarrow> 'h world" where
  "sleep seconds w = \<lparr>hw = hw w, log = log w @ [Sleep seconds]\<rparr>"

section \<open>Register codec\<close>

text \<open>Big-endian: the first byte on the wire is the high byte.\<close>

definition be16 :: "byte \<times> byte \<Rightarrow> 16 word" where
  "be16 bs = push_bit 8 (ucast (fst bs)) OR ucast (snd bs)"

definition be_bytes :: "16 word \<Rightarrow> byte \<times> byte" where
  "be_bytes r = (ucast (drop_bit 8 r), ucast r)"

text \<open>
  Modelled from the spec: the register descriptors \<open>ROUnaryStruct\<close>, \<open>UnaryStruct\<close>,
  \<open>ROBits\<close>, \<open>RWBits\<close>, \<open>ROBit\<close> and \<open>RWBit\<close> come from the register library, which is
  not among the sources. Section 4.1: a register read is one bus transaction
  returning a big-endian 16-bit value, a register write is one bus transaction, and a
  bit-field write is one read and one write of the enclosing register that leaves
  the other fields as they were read. Packing a count into the signed 16-bit format
  fails, before anything is written, when the count does not fit.
\<close>

definition ROUnaryStruct_get_H :: "'h i2c_device \<Rightarrow> byte \<Rightarrow> 'h world \<Rightarrow> int \<times> 'h world" where
  "ROUnaryStruct_get_H bus reg w =
     (case readinto bus reg w of (bs, w') \<Rightarrow> (uint (be16 bs), w'))"

definition UnaryStruct_get_h :: "'h i2c_device \<Rightarrow> byte \<Rightarrow> 'h world \<Rightarrow> int \<times> 'h world" where
  "UnaryStruct_get_h bus reg w =
     (case readinto bus reg w of (bs, w') \<Rightarrow> (sint (be16 bs), w'))"

definition UnaryStruct_set_h ::
  "'h i2c_device \<Rightarrow> byte \<Rightarrow> int \<Rightarrow> 'h world \<Rightarrow> (error + unit) \<times> 'h world" where
  "UnaryStruct_set_h bus reg v w =
     (if v < - 32768 \<or> 32767 < v then (Inl PackError, w)
      else (Inr (), writeout bus reg (be_bytes (word_of_int v)) w))"

definition bit_mask :: "nat \<Rightarrow> nat \<Rightarrow> 16 word" where
  "bit_mask num_bits lowest_bit = push_bit lowest_bit (mask num_bits)"

definition ROBits_get :: "'h i2c_device \<Rightarrow> nat \<Rightarrow> byte \<Rightarrow> nat \<Rightarrow> 'h world \<Rightarrow> int \<times> 'h world" where
  "ROBits_get bus num_bits reg lowest_bit w =
     (case readinto bus reg w of
        (bs, w') \<Rightarrow> (uint (drop_bit lowest_bit (be16 bs AND bit_mask num_bits lowest_bit)), w'))"

definition RWBits_set :: "'h i2c_device \<Rightarrow> nat \<Rightarrow> byte \<Rightarrow> nat \<Rightarrow> int \<Rightarrow> 'h world \<Rightarrow> 'h world" where
  "RWBits_set bus num_bits reg lowest_bit v w =
     (case readinto bus reg w of
        (bs, w') \<Rightarrow>
          writeout bus reg
            (be_bytes ((be16 bs AND NOT (bit_mask num_bits lowest_bit))
               OR (push_bit lowest_bit (word_of_int v) AND bit_mask num_bits lowest_bit))) w')"

definition ROBit_get :: "'h i2c_device \<Rightarrow> byte \<Rightarrow> nat \<Rightarrow> 'h world \<Rightarrow> bool \<times> 'h world" where
  "ROBit_get bus reg b w = (case readinto bus reg w of (bs, w') \<Rightarrow> (bit (be16 bs) b, w'))"

definition RWBit_set :: "'h i2c_device \<Rightarrow> byte \<Rightarrow> nat \<Rightarrow> bool \<Rightarrow> 'h world \<Rightarrow> 'h world" where
  "RWBit_set bus reg b v w =
     (case readinto bus reg w of
        (bs, w') \<Rightarrow>
          writeout bus reg
            (be_bytes (if v then be16 bs OR push_bit b 1 else be16 bs AND NOT (push_bit b 1))) w')"

section \<open>The descriptors of class TMP117\<close>

definition part_id :: "'h i2c_device \<Rightarrow> 'h world \<Rightarrow> int \<times> 'h world" where
  "part_id bus = ROUnaryStruct_get_H bus DEVICE_ID"

definition raw_temperature :: "'h i2c_device \<Rightarrow> 'h world \<Rightarrow> int \<times> 'h world" where
  "raw_temperature bus = UnaryStruct_get_h bus TEMP_RESULT"

definition raw_high_limit :: "'h i2c_device \<Rightarrow> 'h world \<Rightarrow> int \<times> 'h world" where
  "raw_high_limit bus = UnaryStruct_get_h bus T_HIGH_LIMIT"

definition raw_high_limit_set ::
  "'h i2c_device \<Rightarrow> int \<Rightarrow> 'h world \<Rightarrow> (error + unit) \<times> 'h world" where
  "raw_high_limit_set bus = UnaryStruct_set_h bus T_HIGH_LIMIT"

definition raw_low_limit :: "'h i2c_device \<Rightarrow> 'h world \<Rightarrow> int \<times> 'h world" where
  "raw_low_limit bus = UnaryStruct_get_h bus T_LOW_LIMIT"

definition raw_low_limit_set ::
  "'h i2c_device \<Rightarrow> int \<Rightarrow> 'h world \<Rightarrow> (error + unit) \<times> 'h world" where
  "raw_low_limit_set bus = UnaryStruct_set_h bus T_LOW_LIMIT"

definition raw_temperature_offset :: "'h i2c_device \<Rightarrow> 'h world \<Rightarrow> int \<times> 'h world" where
  "raw_temperature_offset bus = UnaryStruct_get_h bus TEMP_OFFSET"

definition raw_temperature_offset_set ::
  "'h i2c_device \<Rightarrow> int \<Rightarrow> 'h world \<Rightarrow> (error + unit) \<times> 'h world" where
  "raw_temperature_offset_set bus = UnaryStruct_set_h bus TEMP_OFFSET"

definition alert_status_data_ready :: "'h i2c_device \<Rightarrow> 'h world \<Rightarrow> int \<times> 'h world" where
  "alert_status_data_ready bus = ROBits_get bus 3 CONFIGURATION 13"

definition eeprom_busy :: "'h i2c_device \<Rightarrow> 'h world \<Rightarrow> bool \<times> 'h world" where
  "eeprom_busy bus = ROBit_get bus CONFIGURATION 12"

definition mode_get :: "'h i2c_device \<Rightarrow> 'h world \<Rightarrow> int \<times> 'h world" where
  "mode_get bus = ROBits_get bus 2 CONFIGURATION 10"

definition mode_set :: "'h i2c_device \<Rightarrow> int \<Rightarrow> 'h world \<Rightarrow> 'h world" where
  "mode_set bus = RWBits_set bus 2 CONFIGURATION 10"

definition raw_measurement_delay :: "'h i2c_device \<Rightarrow> 'h world \<Rightarrow> int \<times> 'h world" where
  "raw_measurement_delay bus = ROBits_get bus 3 CONFIGURATION 7"

definition raw_measurement_delay_set :: "'h i2c_device \<Rightarrow> int \<Rightarrow> 'h world \<Rightarrow> 'h world" where
  "raw_measurement_delay_set bus = RWBits_set bus 3 CONFIGURATION 7"

definition raw_averaged_measurements :: "'h i2c_device \<Rightarrow> 'h world \<Rightarrow> int \<times> 'h world" where
  "raw_averaged_measurements bus = ROBits_get bus 2 CONFIGURATION 5"

definition raw_averaged_measurements_set :: "'h i2c_device \<Rightarrow> int \<Rightarrow> 'h world \<Rightarrow> 'h world" where
  "raw_averaged_measurements_set bus = RWBits_set bus 2 CONFIGURATION 5"

definition raw_alert_mode :: "'h i2c_device \<Rightarrow> 'h world \<Rightarrow> bool \<times> 'h world" where
  "raw_alert_mode bus = ROBit_get bus CONFIGURATION 4"

definition raw_alert_mode_set :: "'h i2c_device \<Rightarrow> bool \<Rightarrow> 'h world \<Rightarrow> 'h world" where
  "raw_alert_mode_set bus = RWBit_set bus CONFIGURATION 4"

definition soft_reset_set :: "'h i2c_device \<Rightarrow> bool \<Rightarrow> 'h world \<Rightarrow> 'h world" where
  "soft_reset_set bus = RWBit_set bus CONFIGURATION 1"

section \<open>The methods of class TMP117\<close>

text \<open>Python's \<open>int\<close> of a float rounds toward zero.\<close>

definition py_int :: "real \<Rightarrow> int" where
  "py_int x = (if 0 \<le> x then \<lfloor>x\<rfloor> else \<lceil>x\<rceil>)"

definition scaled_limit :: "real \<Rightarrow> error + int" where
  "scaled_limit v =
     (if v > 256 \<or> v < - 256 then Inl ValueError
      else Inr (py_int (v / TMP117_RESOLUTION)))"

definition read_status :: "'h i2c_device \<Rightarrow> 'h world \<Rightarrow> (bool \<times> bool \<times> bool) \<times> 'h world" where
  "read_status bus w =
     (case alert_status_data_ready bus w of
        (status_flags, w') \<Rightarrow>
          ((4 AND status_flags > 0, 2 AND status_flags > 0, 1 AND status_flags > 0), w'))"

definition reset :: "'h i2c_device \<Rightarrow> 'h world \<Rightarrow> 'h world" where
  "reset bus w = soft_reset_set bus True w"

text \<open>
  The poll of \<open>_set_mode_and_wait_for_measurement\<close> has no bound: on a device that never
  reports data-ready it runs forever, which is the value \<open>None\<close>.
\<close>

partial_function (option) poll_data_ready :: "'h i2c_device \<Rightarrow> 'h world \<Rightarrow> 'h world option" where
  "poll_data_ready bus w =
     (case read_status bus w of
        (st, w') \<Rightarrow>
          if \<not> snd (snd st) then poll_data_ready bus (sleep 0.001 w') else Some w')"

definition set_mode_and_wait_for_measurement ::
  "'h i2c_device \<Rightarrow> int \<Rightarrow> 'h world \<Rightarrow> (real \<times> 'h world) option" where
  "set_mode_and_wait_for_measurement bus mode w =
     (case poll_data_ready bus (mode_set bus mode w) of
        None \<Rightarrow> None
      | Some w' \<Rightarrow>
          (case raw_temperature bus w' of
             (raw, w'') \<Rightarrow> Some (real_of_int raw * TMP117_RESOLUTION, w'')))"

definition initialize :: "'h i2c_device \<Rightarrow> 'h world \<Rightarrow> 'h world option" where
  "initialize bus w =
     (case set_mode_and_wait_for_measurement bus CONTINUOUS_CONVERSION_MODE w of
        None \<Rightarrow> None
      | Some (t, w') \<Rightarrow> Some (sleep 1 w'))"

definition TMP117_init :: "'h i2c_device \<Rightarrow> 'h world \<Rightarrow> ((error + unit) \<times> 'h world) option" where
  "TMP117_init bus w =
     (case part_id bus w of
        (pid, w') \<Rightarrow>
          if pid \<noteq> DEVICE_ID_VALUE then Some (Inl AttributeError, w')
          else (case initialize bus (reset bus w') of
                  None \<Rightarrow> None
                | Some w'' \<Rightarrow> Some (Inr (), w'')))"

definition temperature :: "'h i2c_device \<Rightarrow> 'h world \<Rightarrow> real \<times> 'h world" where
  "temperature bus w =
     (case raw_temperature bus w of (raw, w') \<Rightarrow> (real_of_int raw * TMP117_RESOLUTION, w'))"

definition temperature_offset :: "'h i2c_device \<Rightarrow> 'h world \<Rightarrow> real \<times> 'h world" where
  "temperature_offset bus w =
     (case raw_temperature_offset bus w of
        (raw, w') \<Rightarrow> (real_of_int raw * TMP117_RESOLUTION, w'))"

definition temperature_offset_set ::
  "'h i2c_device \<Rightarrow> real \<Rightarrow> 'h world \<Rightarrow> (error + unit) \<times> 'h world" where
  "temperature_offset_set bus v w =
     (case scaled_limit v of
        Inl e \<Rightarrow> (Inl e, w)
      | Inr raw \<Rightarrow> raw_temperature_offset_set bus raw w)"

definition high_limit :: "'h i2c_device \<Rightarrow> 'h world \<Rightarrow> real \<times> 'h world" where
  "high_limit bus w =
     (case raw_high_limit bus w of (raw, w') \<Rightarrow> (real_of_int raw * TMP117_RESOLUTION, w'))"

definition high_limit_set ::
  "'h i2c_device \<Rightarrow> real \<Rightarrow> 'h world \<Rightarrow> (error + unit) \<times> 'h world" where
  "high_limit_set bus v w =
     (case scaled_limit v of
        Inl e \<Rightarrow> (Inl e, w)
      | Inr raw \<Rightarrow> raw_high_limit_set bus raw w)"

definition low_limit :: "'h i2c_device \<Rightarrow> 'h world \<Rightarrow> real \<times> 'h world" where
  "low_limit bus w =
     (case raw_low_limit bus w of (raw, w') \<Rightarrow> (real_of_int raw * TMP117_RESOLUTION, w'))"

definition low_limit_set ::
  "'h i2c_device \<Rightarrow> real \<Rightarrow> 'h world \<Rightarrow> (error + unit) \<times> 'h world" where
  "low_limit_set bus v w =
     (case scaled_limit v of
        Inl e \<Rightarrow> (Inl e, w)
      | Inr raw \<Rightarrow> raw_low_limit_set bus raw w)"

definition alert_status :: "'h i2c_device \<Rightarrow> 'h world \<Rightarrow> AlertStatus \<times> 'h world" where
  "alert_status bus w =
     (case read_status bus w of
        (st, w') \<Rightarrow> (\<lparr>high_alert = fst st, low_alert = fst (snd st)\<rparr>, w'))"

definition averaged_measurements :: "'h i2c_device \<Rightarrow> 'h world \<Rightarrow> int \<times> 'h world" where
  "averaged_measurements bus w = raw_averaged_measurements bus w"

definition averaged_measurements_set ::
  "'h i2c_device \<Rightarrow> int \<Rightarrow> 'h world \<Rightarrow> (error + unit) \<times> 'h world" where
  "averaged_measurements_set bus v w =
     (if v \<notin> set [0, 1, 2, 3] then (Inl ValueError, w)
      else (Inr (), raw_averaged_measurements_set bus v w))"

definition measurement_mode :: "'h i2c_device \<Rightarrow> 'h world \<Rightarrow> int \<times> 'h world" where
  "measurement_mode bus w = mode_get bus w"

definition measurement_mode_set :: "'h i2c_device \<Rightarrow> int \<Rightarrow> 'h world \<Rightarrow> 'h world option" where
  "measurement_mode_set bus v w =
     (case set_mode_and_wait_for_measurement bus v w of
        None \<Rightarrow> None
      | Some (t, w') \<Rightarrow> Some w')"

definition measurement_delay :: "'h i2c_device \<Rightarrow> 'h world \<Rightarrow> int \<times> 'h world" where
  "measurement_delay bus w = raw_measurement_delay bus w"

definition measurement_delay_set ::
  "'h i2c_device \<Rightarrow> int \<Rightarrow> 'h world \<Rightarrow> (error + unit) \<times> 'h world" where
  "measurement_delay_set bus v w =
     (if v \<notin> set [0, 1, 2, 3, 4, 5, 6, 7] then (Inl ValueError, w)
      else (Inr (), raw_measurement_delay_set bus v w))"

definition take_single_measurement ::
  "'h i2c_device \<Rightarrow> 'h world \<Rightarrow> (real \<times> 'h world) option" where
  "take_single_measurement bus w = set_mode_and_wait_for_measurement bus ONE_SHOT_MODE w"

definition alert_mode :: "'h i2c_device \<Rightarrow> 'h world \<Rightarrow> bool \<times> 'h world" where
  "alert_mode bus w = raw_alert_mode bus w"

definition alert_mode_set ::
  "'h i2c_device \<Rightarrow> int \<Rightarrow> 'h world \<Rightarrow> (error + unit) \<times> 'h world" where
  "alert_mode_set bus v w =
     (if v \<notin> set [0, 1] then (Inl ValueError, w)
      else (Inr (), raw_alert_mode_set bus (v \<noteq> 0) w))"

definition serial_number :: "'h i2c_device \<Rightarrow> 'h world \<Rightarrow> byte list \<times> 'h world" where
  "serial_number bus w =
     (case readinto bus EEPROM1 w of
        (eeprom1_data, w1) \<Rightarrow>
          (case readinto bus EEPROM2 w1 of
             (eeprom2_data, w2) \<Rightarrow>
               (case readinto bus EEPROM3 w2 of
                  (eeprom3_data, w3) \<Rightarrow>
                    ([fst eeprom1_data, snd eeprom1_data,
                      fst eeprom2_data, snd eeprom2_data,
                      fst eeprom3_data, snd eeprom3_data], w3))))"

section \<open>A simulated device\<close>

text \<open>
  A register file with a countdown: the data-ready bit of the configuration register
  reads as set once the countdown has reached zero, and each earlier read of the
  configuration register shows the three status bits clear and counts down by one.
\<close>

record sim =
  regs :: "byte \<Rightarrow> 16 word"
  busy :: nat

definition sim_read :: "byte \<Rightarrow> sim \<Rightarrow> (byte \<times> byte) \<times> sim" where
  "sim_read reg h =
     (if reg = CONFIGURATION then
        (case busy h of
           0 \<Rightarrow> (be_bytes (regs h reg OR 0x2000), h)
         | Suc n \<Rightarrow> (be_bytes (regs h reg AND 0x1FFF), \<lparr>regs = regs h, busy = n\<rparr>))
      else (be_bytes (regs h reg), h))"

definition sim_write :: "byte \<Rightarrow> byte \<times> byte \<Rightarrow> sim \<Rightarrow> sim" where
  "sim_write reg bs h = \<lparr>regs = (regs h)(reg := be16 bs), busy = busy h\<rparr>"

definition sim_bus :: "sim i2c_device" where
  "sim_bus = \<lparr>i2c_write_then_readinto = sim_read, i2c_write = sim_write\<rparr>"

definition sim_regs :: "16 word \<Rightarrow> 16 word \<Rightarrow> 16 word \<Rightarrow> byte \<Rightarrow> 16 word" where
  "sim_regs ident config temp =
     (\<lambda>_. 0)(DEVICE_ID := ident, CONFIGURATION := config, TEMP_RESULT := temp,
              EEPROM1 := 0xAABB, EEPROM2 := 0xCCDD, EEPROM3 := 0xEEFF)"

definition sim_world :: "16 word \<Rightarrow> 16 word \<Rightarrow> 16 word \<Rightarrow> nat \<Rightarrow> sim world" where
  "sim_world ident config temp n =
     \<lparr>hw = \<lparr>regs = sim_regs ident config temp, busy = n\<rparr>, log = []\<rparr>"

text \<open>A device whose every register reads as zero: it never reports data-ready.\<close>

definition stuck_bus :: "unit i2c_device" where
  "stuck_bus = \<lparr>i2c_write_then_readinto = (\<lambda>reg h. ((0, 0), h)), i2c_write = (\<lambda>reg bs h. h)\<rparr>"

section \<open>What a trace of the poll looks like\<close>

text \<open>
  A poll that found data-ready clear leaves two events: the read of the configuration
  register and the sleep of one millisecond that follows it.
\<close>

definition poll_log :: "(byte \<times> byte) list \<Rightarrow> event list" where
  "poll_log polls = concat (map (\<lambda>bs. [BusRead CONFIGURATION bs, Sleep 0.001]) polls)"

text \<open>The mode field of a configuration word, bits 11 and 10.\<close>

definition mode_field :: "16 word \<Rightarrow> int" where
  "mode_field c = uint (drop_bit 10 (c AND bit_mask 2 10))"

text \<open>
  What the hardware answers to the polls: the hardware state after \<open>k\<close> reads of the
  configuration register, and the values those \<open>k\<close> reads returned.
\<close>

primrec hw_after_polls :: "'h i2c_device \<Rightarrow> nat \<Rightarrow> 'h \<Rightarrow> 'h" where
  "hw_after_polls bus 0 h = h"
| "hw_after_polls bus (Suc k) h =
     hw_after_polls bus k (snd (i2c_write_then_readinto bus CONFIGURATION h))"

primrec poll_reads :: "'h i2c_device \<Rightarrow> nat \<Rightarrow> 'h \<Rightarrow> (byte \<times> byte) list" where
  "poll_reads bus 0 h = []"
| "poll_reads bus (Suc k) h =
     fst (i2c_write_then_readinto bus CONFIGURATION h)
       # poll_reads bus k (snd (i2c_write_then_readinto bus CONFIGURATION h))"

text \<open>The configuration word \<open>c\<close> with the mode field replaced by \<open>v\<close>.\<close>

definition mode_write :: "16 word \<Rightarrow> int \<Rightarrow> 16 word" where
  "mode_write c v =
     (c AND NOT (bit_mask 2 10)) OR (push_bit 10 (word_of_int v) AND bit_mask 2 10)"

section \<open>Unit conversion\<close>

lemma py_int_of_int: "py_int (real_of_int n) = n"
  by (simp add: py_int_def)

lemma sint16_bounds: "- 32768 \<le> sint (r :: 16 word) \<and> sint r \<le> 32767"
  using sint_ge [of r] sint_lt [of r] by simp

lemma scaled_limit_count:
  "- 32768 \<le> n \<Longrightarrow> n \<le> 32767 \<Longrightarrow>
     scaled_limit (real_of_int n * TMP117_RESOLUTION) = Inr n"
proof -
  assume lo: "- 32768 \<le> n" and hi: "n \<le> 32767"
  have e: "real_of_int n * TMP117_RESOLUTION / TMP117_RESOLUTION = real_of_int n"
    by (simp add: TMP117_RESOLUTION_def)
  have g: "\<not> (real_of_int n * TMP117_RESOLUTION > 256
              \<or> real_of_int n * TMP117_RESOLUTION < - 256)"
    using lo hi by (simp add: TMP117_RESOLUTION_def)
  show ?thesis
    unfolding scaled_limit_def using g by (simp only: e py_int_of_int if_False)
qed

text \<open>
  Inside the half-open interval the conversion succeeds with the truncated quotient, and
  strictly outside the closed interval it raises the range error.
\<close>

lemma scaled_limit_in_range:
  "- 256 \<le> v \<Longrightarrow> v < 256 \<Longrightarrow> scaled_limit v = Inr (py_int (v / 0.0078125))"
  by (simp add: scaled_limit_def TMP117_RESOLUTION_def)

lemma scaled_limit_out_of_range:
  "v > 256 \<or> v < - 256 \<Longrightarrow> scaled_limit v = Inl ValueError"
  by (simp add: scaled_limit_def)

text \<open>
  C1: the conversion is claimed to raise the range error for every value from 256
  upwards. The guard of \<open>_scaled_limit\<close> compares with \<open>>\<close>, so the value 256 itself
  passes it and the count 32768 is returned, one more than the largest count a signed
  16-bit register holds.
\<close>

theorem scaled_limit_256_passes_guard: "scaled_limit 256 = Inr 32768"
  by (simp add: scaled_limit_def TMP117_RESOLUTION_def py_int_def)

text \<open>
  C3: for every signed 16-bit count \<open>r\<close>, scaling \<open>r\<close> to degrees Celsius and converting
  the result back with \<open>_scaled_limit\<close> gives \<open>r\<close> again.
\<close>

theorem scaled_limit_roundtrip:
  "scaled_limit (real_of_int (sint (r :: 16 word)) * TMP117_RESOLUTION) = Inr (sint r)"
  using sint16_bounds [of r] by (intro scaled_limit_count) simp_all

section \<open>Facts about the register codec\<close>

lemma be16_be_bytes: "be16 (be_bytes r) = r"
  unfolding be16_def be_bytes_def
  by (rule bit_word_eqI) (auto simp: bit_simps)

lemma readinto_eq:
  "readinto bus reg w =
     (fst (i2c_write_then_readinto bus reg (hw w)),
      \<lparr>hw = snd (i2c_write_then_readinto bus reg (hw w)),
       log = log w @ [BusRead reg (fst (i2c_write_then_readinto bus reg (hw w)))]\<rparr>)"
  by (simp add: readinto_def split: prod.split)

lemma drop_status: "drop_bit 13 ((x :: 16 word) AND bit_mask 3 13) = drop_bit 13 x"
  unfolding bit_mask_def
  by (rule bit_word_eqI) (auto simp: bit_simps dest: bit_imp_le_length)

lemma and_pow2_pos: "(2 ^ n AND (s::int) > 0) = bit s n"
proof -
  have "0 \<le> 2 ^ n AND s" by simp
  moreover have "(2 ^ n AND s = 0) = (\<not> bit s n)"
    by (simp add: and.commute [of "2 ^ n"] and_exp_eq_0_iff_not_bit)
  ultimately show ?thesis by linarith
qed

lemma and_pos_bits:
  "(4 AND (s::int) > 0) = bit s 2" "(2 AND (s::int) > 0) = bit s 1" "(1 AND (s::int) > 0) = bit s 0"
  using and_pow2_pos [of 2 s] and_pow2_pos [of 1 s] and_pow2_pos [of 0 s] by simp_all

lemma and_pos_neq: "0 \<le> k \<Longrightarrow> (k AND (s::int) > 0) = (s AND k \<noteq> 0)"
proof -
  assume "0 \<le> k"
  then have h: "0 \<le> k AND s" by simp
  have c: "s AND k = k AND s" by (rule and.commute)
  show ?thesis unfolding c using h by arith
qed

lemma status_lt8: "uint (drop_bit 13 (x :: 16 word)) < 8"
  using uint_lt2p [of x] by (simp add: unsigned_drop_bit_eq drop_bit_eq_div uint_div_distrib)

lemma status_bits: "bit (uint (drop_bit 13 (x :: 16 word))) n = bit x (13 + n)"
  by (auto simp: bit_simps dest: bit_imp_le_length)

lemma raw_temperature_eq:
  "raw_temperature bus w =
     (sint (be16 (fst (i2c_write_then_readinto bus TEMP_RESULT (hw w)))),
      \<lparr>hw = snd (i2c_write_then_readinto bus TEMP_RESULT (hw w)),
       log = log w @ [BusRead TEMP_RESULT (fst (i2c_write_then_readinto bus TEMP_RESULT (hw w)))]\<rparr>)"
  by (simp add: raw_temperature_def UnaryStruct_get_h_def readinto_eq)

section \<open>The simulated device, evaluated\<close>

lemma sim_rd:
  "i2c_write_then_readinto sim_bus reg h = sim_read reg h"
  "i2c_write sim_bus reg bs h = sim_write reg bs h"
  by (simp_all add: sim_bus_def)

lemma sim_world_sel:
  "log (sim_world i c t n) = []"
  "hw (sim_world i c t n) = \<lparr>regs = sim_regs i c t, busy = n\<rparr>"
  by (simp_all add: sim_world_def)

lemmas reg_defs = TEMP_RESULT_def CONFIGURATION_def T_HIGH_LIMIT_def T_LOW_LIMIT_def
  EEPROM_UL_def EEPROM1_def EEPROM2_def TEMP_OFFSET_def EEPROM3_def DEVICE_ID_def

section \<open>Status and alerts\<close>

lemma alert_status_data_ready_eq:
  "alert_status_data_ready bus w =
     (uint (drop_bit 13 (be16 (fst (i2c_write_then_readinto bus CONFIGURATION (hw w))))),
      snd (readinto bus CONFIGURATION w))"
  unfolding alert_status_data_ready_def ROBits_get_def readinto_eq prod.case drop_status snd_conv
  by (rule refl)

lemma read_status_eq:
  "read_status bus w =
     ((bit (be16 (fst (i2c_write_then_readinto bus CONFIGURATION (hw w)))) 15,
       bit (be16 (fst (i2c_write_then_readinto bus CONFIGURATION (hw w)))) 14,
       bit (be16 (fst (i2c_write_then_readinto bus CONFIGURATION (hw w)))) 13),
      snd (readinto bus CONFIGURATION w))"
  by (simp add: read_status_def alert_status_data_ready_eq and_pos_bits status_bits)

text \<open>
  C4: let \<open>s\<close> be the 3-bit status field obtained by the one read of the configuration
  register. Then \<open>_read_status\<close> returns high alert = (\<open>s\<close> and 4 is not 0), low alert =
  (\<open>s\<close> and 2 is not 0), data ready = (\<open>s\<close> and 1 is not 0); \<open>alert_status\<close> returns the
  record of exactly the first two; the field 5 gives high alert true, low alert false
  and data ready true; and the log grows by a single bus read.
\<close>

theorem status_decomposition:
  "alert_status_data_ready bus w = (s, w') \<Longrightarrow>
     0 \<le> s \<and> s < 8 \<and>
     read_status bus w = ((s AND 4 \<noteq> 0, s AND 2 \<noteq> 0, s AND 1 \<noteq> 0), w') \<and>
     alert_status bus w = (\<lparr>high_alert = (s AND 4 \<noteq> 0), low_alert = (s AND 2 \<noteq> 0)\<rparr>, w') \<and>
     (s = 5 \<longrightarrow> read_status bus w = ((True, False, True), w')
              \<and> alert_status bus w = (\<lparr>high_alert = True, low_alert = False\<rparr>, w')) \<and>
     (\<exists>bs. log w' = log w @ [BusRead CONFIGURATION bs])"
proof -
  assume a: "alert_status_data_ready bus w = (s, w')"
  have s: "s = uint (drop_bit 13 (be16 (fst (i2c_write_then_readinto bus CONFIGURATION (hw w)))))"
    and w': "w' = snd (readinto bus CONFIGURATION w)"
    using a by (simp_all add: alert_status_data_ready_eq)
  have r: "read_status bus w = ((s AND 4 \<noteq> 0, s AND 2 \<noteq> 0, s AND 1 \<noteq> 0), w')"
    by (simp add: read_status_def a and_pos_neq)
  have al: "alert_status bus w = (\<lparr>high_alert = (s AND 4 \<noteq> 0), low_alert = (s AND 2 \<noteq> 0)\<rparr>, w')"
    by (simp add: alert_status_def r)
  have b: "0 \<le> s \<and> s < 8" unfolding s using status_lt8 by simp
  have l: "\<exists>bs. log w' = log w @ [BusRead CONFIGURATION bs]"
    unfolding w' by (simp add: readinto_eq)
  have five: "s = 5 \<longrightarrow> read_status bus w = ((True, False, True), w')
              \<and> alert_status bus w = (\<lparr>high_alert = True, low_alert = False\<rparr>, w')"
    by (simp add: r al)
  from b r al five l show ?thesis by blast
qed

theorem status_decomposition_witness:
  "fst (alert_status_data_ready sim_bus (sim_world 0x0117 0x8220 0 0)) = 5 \<and>
   fst (read_status sim_bus (sim_world 0x0117 0x8220 0 0)) = (True, False, True) \<and>
   fst (alert_status sim_bus (sim_world 0x0117 0x8220 0 0))
     = \<lparr>high_alert = True, low_alert = False\<rparr>"
proof -
  have h: "alert_status_data_ready sim_bus (sim_world 0x0117 0x8220 0 0)
             = (5, snd (readinto sim_bus CONFIGURATION (sim_world 0x0117 0x8220 0 0)))"
    by (simp add: alert_status_data_ready_eq sim_rd sim_read_def sim_world_def sim_regs_def
          be16_be_bytes reg_defs)
  from status_decomposition [OF h] show ?thesis using h by simp
qed

section \<open>Temperature\<close>

text \<open>
  C8: when the temperature-result register holds the signed 16-bit count \<open>r\<close>, the
  temperature reading is \<open>r\<close> times 0.0078125; the count 128 reads as exactly 1.
\<close>

theorem temperature_scales_raw_count:
  "fst (i2c_write_then_readinto bus TEMP_RESULT (hw w)) = be_bytes r \<Longrightarrow>
     fst (temperature bus w) = real_of_int (sint r) * 0.0078125 \<and>
     (r = 128 \<longrightarrow> fst (temperature bus w) = 1)"
  by (simp add: temperature_def raw_temperature_eq be16_be_bytes TMP117_RESOLUTION_def)

theorem temperature_scales_raw_count_witness:
  "fst (i2c_write_then_readinto sim_bus TEMP_RESULT (hw (sim_world 0x0117 0x0220 128 0)))
     = be_bytes 128 \<and>
   fst (temperature sim_bus (sim_world 0x0117 0x0220 128 0)) = 1"
proof -
  have h: "fst (i2c_write_then_readinto sim_bus TEMP_RESULT (hw (sim_world 0x0117 0x0220 128 0)))
     = be_bytes 128"
    by (simp add: sim_rd sim_read_def sim_world_def sim_regs_def reg_defs)
  from temperature_scales_raw_count [OF h] show ?thesis using h by simp
qed

text \<open>
  C9: on every bus, the temperature reading is one bus read, of the temperature-result
  register, scaled by the resolution, and nothing else; and on the simulated register
  file the reading is the same whatever value \<open>off\<close> the offset register holds.
\<close>

theorem temperature_ignores_offset:
  "temperature bus w =
     (real_of_int (sint (be16 (fst (i2c_write_then_readinto bus TEMP_RESULT (hw w)))))
        * TMP117_RESOLUTION,
      \<lparr>hw = snd (i2c_write_then_readinto bus TEMP_RESULT (hw w)),
       log = log w @ [BusRead TEMP_RESULT (fst (i2c_write_then_readinto bus TEMP_RESULT (hw w)))]\<rparr>)
   \<and> fst (temperature sim_bus \<lparr>hw = \<lparr>regs = rs(TEMP_OFFSET := off), busy = n\<rparr>, log = l\<rparr>)
       = real_of_int (sint (rs TEMP_RESULT)) * TMP117_RESOLUTION"
  by (simp add: temperature_def raw_temperature_eq sim_rd sim_read_def be16_be_bytes reg_defs)

section \<open>Construction\<close>

text \<open>
  C6: when the device-id register reads a value other than 0x0117, the constructor ends
  with the identification error, and the read of the device-id register is the only
  bus transaction it has made.
\<close>

theorem init_wrong_id:
  "uint (be16 (fst (i2c_write_then_readinto bus DEVICE_ID (hw w)))) \<noteq> 0x0117 \<Longrightarrow>
     TMP117_init bus w =
       Some (Inl AttributeError,
             \<lparr>hw = snd (i2c_write_then_readinto bus DEVICE_ID (hw w)),
              log = log w @ [BusRead DEVICE_ID (fst (i2c_write_then_readinto bus DEVICE_ID (hw w)))]\<rparr>)"
  by (simp add: TMP117_init_def part_id_def ROUnaryStruct_get_H_def readinto_eq DEVICE_ID_VALUE_def)

theorem init_wrong_id_witness:
  "uint (be16 (fst (i2c_write_then_readinto sim_bus DEVICE_ID (hw (sim_world 0x0116 0x0220 0 0)))))
     \<noteq> 0x0117 \<and>
   TMP117_init sim_bus (sim_world 0x0116 0x0220 0 0) =
     Some (Inl AttributeError,
           \<lparr>hw = hw (sim_world 0x0116 0x0220 0 0), log = [BusRead DEVICE_ID (0x01, 0x16)]\<rparr>)"
proof -
  have r: "i2c_write_then_readinto sim_bus DEVICE_ID (hw (sim_world 0x0116 0x0220 0 0))
             = ((0x01, 0x16), hw (sim_world 0x0116 0x0220 0 0))"
    by (simp add: sim_rd sim_read_def sim_world_def sim_regs_def reg_defs be_bytes_def)
  have h: "uint (be16 (fst (i2c_write_then_readinto sim_bus DEVICE_ID
             (hw (sim_world 0x0116 0x0220 0 0))))) \<noteq> 0x0117"
    by (simp add: r be16_def)
  from init_wrong_id [OF h] show ?thesis using h by (simp add: r sim_world_sel(1))
qed

section \<open>Serial number\<close>

text \<open>
  C7: on every bus, \<open>serial_number\<close> makes exactly three bus reads, of EEPROM1, EEPROM2
  and EEPROM3 in this order, each from the hardware state the previous one left, and
  returns the six bytes the bus answered, in the order read. Nothing is cached: a second
  call reads the three registers again and returns what the bus answers then. When the
  three registers hold 0xAABB, 0xCCDD and 0xEEFF the result is AA BB CC DD EE FF.
\<close>

theorem serial_number_reads:
  "i2c_write_then_readinto bus EEPROM1 (hw w) = (b1, h1) \<Longrightarrow>
   i2c_write_then_readinto bus EEPROM2 h1 = (b2, h2) \<Longrightarrow>
   i2c_write_then_readinto bus EEPROM3 h2 = (b3, h3) \<Longrightarrow>
   i2c_write_then_readinto bus EEPROM1 h3 = (c1, h4) \<Longrightarrow>
   i2c_write_then_readinto bus EEPROM2 h4 = (c2, h5) \<Longrightarrow>
   i2c_write_then_readinto bus EEPROM3 h5 = (c3, h6) \<Longrightarrow>
     serial_number bus w =
       ([fst b1, snd b1, fst b2, snd b2, fst b3, snd b3],
        \<lparr>hw = h3,
         log = log w @ [BusRead EEPROM1 b1, BusRead EEPROM2 b2, BusRead EEPROM3 b3]\<rparr>)
   \<and> serial_number bus (snd (serial_number bus w)) =
       ([fst c1, snd c1, fst c2, snd c2, fst c3, snd c3],
        \<lparr>hw = h6,
         log = log w @ [BusRead EEPROM1 b1, BusRead EEPROM2 b2, BusRead EEPROM3 b3,
                        BusRead EEPROM1 c1, BusRead EEPROM2 c2, BusRead EEPROM3 c3]\<rparr>)
   \<and> (b1 = be_bytes 0xAABB \<and> b2 = be_bytes 0xCCDD \<and> b3 = be_bytes 0xEEFF \<longrightarrow>
        fst (serial_number bus w) = [0xAA, 0xBB, 0xCC, 0xDD, 0xEE, 0xFF])
   \<and> fst (serial_number sim_bus
        \<lparr>hw = \<lparr>regs = rs(EEPROM1 := 0xAABB, EEPROM2 := 0xCCDD, EEPROM3 := 0xEEFF), busy = n\<rparr>,
         log = l\<rparr>)
       = [0xAA, 0xBB, 0xCC, 0xDD, 0xEE, 0xFF]"
  by (simp add: serial_number_def readinto_eq sim_rd sim_read_def reg_defs be_bytes_def)

theorem serial_number_reads_witness:
  "serial_number sim_bus (sim_world 0x0117 0x0220 0 0) =
     ([0xAA, 0xBB, 0xCC, 0xDD, 0xEE, 0xFF],
      \<lparr>hw = hw (sim_world 0x0117 0x0220 0 0),
       log = [BusRead EEPROM1 (0xAA, 0xBB), BusRead EEPROM2 (0xCC, 0xDD),
              BusRead EEPROM3 (0xEE, 0xFF)]\<rparr>)
   \<and> serial_number sim_bus (snd (serial_number sim_bus (sim_world 0x0117 0x0220 0 0))) =
     ([0xAA, 0xBB, 0xCC, 0xDD, 0xEE, 0xFF],
      \<lparr>hw = hw (sim_world 0x0117 0x0220 0 0),
       log = [BusRead EEPROM1 (0xAA, 0xBB), BusRead EEPROM2 (0xCC, 0xDD),
              BusRead EEPROM3 (0xEE, 0xFF),
              BusRead EEPROM1 (0xAA, 0xBB), BusRead EEPROM2 (0xCC, 0xDD),
              BusRead EEPROM3 (0xEE, 0xFF)]\<rparr>)"
proof -
  let ?h = "hw (sim_world 0x0117 0x0220 0 0)"
  have r1: "i2c_write_then_readinto sim_bus EEPROM1 ?h = ((0xAA, 0xBB), ?h)"
    by (simp add: sim_rd sim_read_def sim_world_def sim_regs_def reg_defs be_bytes_def)
  have r2: "i2c_write_then_readinto sim_bus EEPROM2 ?h = ((0xCC, 0xDD), ?h)"
    by (simp add: sim_rd sim_read_def sim_world_def sim_regs_def reg_defs be_bytes_def)
  have r3: "i2c_write_then_readinto sim_bus EEPROM3 ?h = ((0xEE, 0xFF), ?h)"
    by (simp add: sim_rd sim_read_def sim_world_def sim_regs_def reg_defs be_bytes_def)
  from serial_number_reads [OF r1 r2 r3 r1 r2 r3, where rs = "\<lambda>_. 0" and n = 0 and l = "[]"]
  show ?thesis
    unfolding sim_world_sel(1) append_Nil fst_conv snd_conv by blast
qed

section \<open>Validated setters\<close>

lemma RWBits_set_log:
  "log (RWBits_set bus nb reg lb v w) =
     log w @ [BusRead reg (fst (i2c_write_then_readinto bus reg (hw w))),
              BusWrite reg (be_bytes ((be16 (fst (i2c_write_then_readinto bus reg (hw w)))
                                        AND NOT (bit_mask nb lb))
                   OR (push_bit lb (word_of_int v) AND bit_mask nb lb)))]"
  by (simp add: RWBits_set_def readinto_eq writeout_def)

lemma RWBit_set_log:
  "\<exists>c. log (RWBit_set bus reg b v w) =
     log w @ [BusRead reg (fst (i2c_write_then_readinto bus reg (hw w))), BusWrite reg c]"
  by (simp add: RWBit_set_def readinto_eq writeout_def)

text \<open>
  C5: for every integer \<open>v\<close>, the setter of \<open>averaged_measurements\<close> succeeds exactly when
  \<open>v\<close> is one of 0, 1, 2, 3, the setter of \<open>measurement_delay\<close> exactly when \<open>v\<close> is one of
  0 to 7, and the setter of \<open>alert_mode\<close> exactly when \<open>v\<close> is 0 or 1; for any other value
  the setter ends with the range error and the hardware state and the log are what
  they were, so nothing has been written.
\<close>

theorem setters_validate:
  "(fst (averaged_measurements_set bus v w) = Inr () \<longleftrightarrow> v \<in> {0, 1, 2, 3}) \<and>
   (v \<notin> {0, 1, 2, 3} \<longrightarrow> averaged_measurements_set bus v w = (Inl ValueError, w)) \<and>
   (fst (measurement_delay_set bus v w) = Inr () \<longleftrightarrow> v \<in> {0, 1, 2, 3, 4, 5, 6, 7}) \<and>
   (v \<notin> {0, 1, 2, 3, 4, 5, 6, 7} \<longrightarrow> measurement_delay_set bus v w = (Inl ValueError, w)) \<and>
   (fst (alert_mode_set bus v w) = Inr () \<longleftrightarrow> v \<in> {0, 1}) \<and>
   (v \<notin> {0, 1} \<longrightarrow> alert_mode_set bus v w = (Inl ValueError, w))"
  by (simp add: averaged_measurements_set_def measurement_delay_set_def alert_mode_set_def)

theorem setters_validate_witness:
  "averaged_measurements_set sim_bus 8 (sim_world 0x0117 0x0220 0 0)
     = (Inl ValueError, sim_world 0x0117 0x0220 0 0) \<and>
   measurement_delay_set sim_bus 8 (sim_world 0x0117 0x0220 0 0)
     = (Inl ValueError, sim_world 0x0117 0x0220 0 0) \<and>
   alert_mode_set sim_bus 8 (sim_world 0x0117 0x0220 0 0)
     = (Inl ValueError, sim_world 0x0117 0x0220 0 0) \<and>
   fst (averaged_measurements_set sim_bus 1 (sim_world 0x0117 0x0220 0 0)) = Inr () \<and>
   fst (measurement_delay_set sim_bus 1 (sim_world 0x0117 0x0220 0 0)) = Inr () \<and>
   fst (alert_mode_set sim_bus 1 (sim_world 0x0117 0x0220 0 0)) = Inr ()"
  using setters_validate [of sim_bus 8 "sim_world 0x0117 0x0220 0 0"]
        setters_validate [of sim_bus 1 "sim_world 0x0117 0x0220 0 0"]
  by simp

section \<open>The poll for data-ready\<close>

lemma poll_log_Cons: "poll_log (p # ps) = [BusRead CONFIGURATION p, Sleep 0.001] @ poll_log ps"
  by (simp add: poll_log_def)

lemma poll_data_ready_log:
  assumes ret: "poll_data_ready bus w = Some w'"
  shows "\<exists>polls bs. log w' = log w @ poll_log polls @ [BusRead CONFIGURATION bs]
        \<and> (\<forall>p \<in> set polls. \<not> bit (be16 p) 13) \<and> bit (be16 bs) 13"
proof -
  let ?P = "\<lambda>(bus :: 'a i2c_device) w w'.
     \<exists>polls bs. log w' = log w @ poll_log polls @ [BusRead CONFIGURATION bs]
        \<and> (\<forall>p \<in> set polls. \<not> bit (be16 p) 13) \<and> bit (be16 bs) 13"
  show ?thesis
  proof (rule poll_data_ready.raw_induct [where P = ?P, OF _ ret])
    fix poll and bus :: "'a i2c_device" and w w'
    assume IH: "\<And>b x y. poll b x = Some y \<Longrightarrow> ?P b x y"
      and step: "(case read_status bus w of
                    (st, w1) \<Rightarrow> if \<not> snd (snd st) then poll bus (sleep (1 / 10 ^ 3) w1)
                                else Some w1) = Some w'"
    let ?bs = "fst (i2c_write_then_readinto bus CONFIGURATION (hw w))"
    let ?w1 = "snd (readinto bus CONFIGURATION w)"
    have l1: "log ?w1 = log w @ [BusRead CONFIGURATION ?bs]" by (simp add: readinto_eq)
    show "?P bus w w'"
    proof (cases "bit (be16 ?bs) 13")
      case True
      with step have "w' = ?w1" by (simp add: read_status_eq)
      with l1 True have "log w' = log w @ poll_log [] @ [BusRead CONFIGURATION ?bs]
          \<and> (\<forall>p \<in> set []. \<not> bit (be16 p) 13) \<and> bit (be16 ?bs) 13"
        by (simp add: poll_log_def)
      then show ?thesis by blast
    next
      case False
      with step have "poll bus (sleep (1 / 10 ^ 3) ?w1) = Some w'" by (simp add: read_status_eq)
      from IH [OF this] obtain polls bs where
        a: "log w' = log (sleep (1 / 10 ^ 3) ?w1) @ poll_log polls @ [BusRead CONFIGURATION bs]"
        and b: "\<forall>p \<in> set polls. \<not> bit (be16 p) 13" and c: "bit (be16 bs) 13"
        by blast
      have "log w' = log w @ poll_log (?bs # polls) @ [BusRead CONFIGURATION bs]"
        using a l1 by (simp add: sleep_def poll_log_Cons)
      moreover have "\<forall>p \<in> set (?bs # polls). \<not> bit (be16 p) 13" using b False by simp
      ultimately show ?thesis using c by blast
    qed
  qed
qed

lemma poll_data_ready_never:
  assumes never: "\<forall>h. \<not> bit (be16 (fst (i2c_write_then_readinto bus CONFIGURATION h))) 13"
  shows "poll_data_ready bus w = None"
proof (rule ccontr)
  assume "poll_data_ready bus w \<noteq> None"
  then obtain w' where ret: "poll_data_ready bus w = Some w'" by blast
  let ?P = "\<lambda>(b :: 'a i2c_device) (w :: 'a world) (w' :: 'a world).
     (\<forall>h. \<not> bit (be16 (fst (i2c_write_then_readinto b CONFIGURATION h))) 13) \<longrightarrow> False"
  have "?P bus w w'"
  proof (rule poll_data_ready.raw_induct [where P = ?P, OF _ ret])
    fix poll and b :: "'a i2c_device" and w w'
    assume IH: "\<And>b x y. poll b x = Some y \<Longrightarrow> ?P b x y"
      and step: "(case read_status b w of
                    (st, w1) \<Rightarrow> if \<not> snd (snd st) then poll b (sleep (1 / 10 ^ 3) w1)
                                else Some w1) = Some w'"
    show "?P b w w'"
    proof
      assume nv: "\<forall>h. \<not> bit (be16 (fst (i2c_write_then_readinto b CONFIGURATION h))) 13"
      then have "\<not> bit (be16 (fst (i2c_write_then_readinto b CONFIGURATION (hw w)))) 13"
        by blast
      with step have "poll b (sleep (1 / 10 ^ 3) (snd (readinto b CONFIGURATION w))) = Some w'"
        by (simp add: read_status_eq)
      from IH [OF this] nv show False by blast
    qed
  qed
  with never show False by blast
qed

lemma mode_field_written:
  assumes v: "0 \<le> v" "v < 4"
    and x: "x AND bit_mask 2 10 = push_bit 10 (word_of_int v) AND bit_mask 2 10"
  shows "mode_field x = v"
proof -
  from v have "v = 0 \<or> v = 1 \<or> v = 2 \<or> v = 3" by arith
  then show ?thesis
    unfolding mode_field_def x by (auto simp: bit_mask_def mask_eq_exp_minus_1)
qed

lemma field_update:
  "((c AND NOT m) OR (f AND m)) AND NOT m = c AND NOT (m :: 16 word)"
  "((c AND NOT m) OR (f AND m)) AND m = f AND m"
  by (rule bit_word_eqI; auto simp: bit_simps)+

lemma mode_set_log:
  "\<exists>x. log (mode_set bus v w) =
         log w @ [BusRead CONFIGURATION (fst (i2c_write_then_readinto bus CONFIGURATION (hw w))),
                  BusWrite CONFIGURATION (be_bytes x)]
     \<and> x AND NOT (bit_mask 2 10)
           = be16 (fst (i2c_write_then_readinto bus CONFIGURATION (hw w))) AND NOT (bit_mask 2 10)
     \<and> x AND bit_mask 2 10 = push_bit 10 (word_of_int v) AND bit_mask 2 10"
  unfolding mode_set_def RWBits_set_log
  using field_update by blast

lemma reset_log:
  "log (reset bus w) =
     log w @ [BusRead CONFIGURATION (fst (i2c_write_then_readinto bus CONFIGURATION (hw w))),
              BusWrite CONFIGURATION
                (be_bytes (be16 (fst (i2c_write_then_readinto bus CONFIGURATION (hw w))) OR 2))]"
  by (simp add: reset_def soft_reset_set_def RWBit_set_def readinto_eq writeout_def)

lemma set_mode_and_wait_log:
  assumes ret: "set_mode_and_wait_for_measurement bus v w = Some (t, w')"
  shows "\<exists>c x polls bs tb.
           log w' = log w @ [BusRead CONFIGURATION c, BusWrite CONFIGURATION (be_bytes x)]
                      @ poll_log polls @ [BusRead CONFIGURATION bs, BusRead TEMP_RESULT tb]
         \<and> x AND NOT (bit_mask 2 10) = be16 c AND NOT (bit_mask 2 10)
         \<and> x AND bit_mask 2 10 = push_bit 10 (word_of_int v) AND bit_mask 2 10
         \<and> (\<forall>p \<in> set polls. \<not> bit (be16 p) 13) \<and> bit (be16 bs) 13
         \<and> t = real_of_int (sint (be16 tb)) * TMP117_RESOLUTION"
proof -
  from ret obtain w1 where p: "poll_data_ready bus (mode_set bus v w) = Some w1"
    and r: "(case raw_temperature bus w1 of (raw, w2) \<Rightarrow> Some (real_of_int raw * TMP117_RESOLUTION, w2))
              = Some (t, w')"
    by (auto simp: set_mode_and_wait_for_measurement_def split: option.splits)
  from poll_data_ready_log [OF p] obtain polls bs where
    l1: "log w1 = log (mode_set bus v w) @ poll_log polls @ [BusRead CONFIGURATION bs]"
    and nr: "\<forall>p \<in> set polls. \<not> bit (be16 p) 13" and rd: "bit (be16 bs) 13"
    by blast
  from mode_set_log [of bus v w] obtain x where
    l0: "log (mode_set bus v w) =
           log w @ [BusRead CONFIGURATION (fst (i2c_write_then_readinto bus CONFIGURATION (hw w))),
                    BusWrite CONFIGURATION (be_bytes x)]"
    and x1: "x AND NOT (bit_mask 2 10)
           = be16 (fst (i2c_write_then_readinto bus CONFIGURATION (hw w))) AND NOT (bit_mask 2 10)"
    and x2: "x AND bit_mask 2 10 = push_bit 10 (word_of_int v) AND bit_mask 2 10"
    by blast
  let ?tb = "fst (i2c_write_then_readinto bus TEMP_RESULT (hw w1))"
  from r have t: "t = real_of_int (sint (be16 ?tb)) * TMP117_RESOLUTION"
    and l2: "log w' = log w1 @ [BusRead TEMP_RESULT ?tb]"
    by (auto simp: raw_temperature_eq)
  have "log w' = log w @ [BusRead CONFIGURATION (fst (i2c_write_then_readinto bus CONFIGURATION (hw w))),
                    BusWrite CONFIGURATION (be_bytes x)]
                      @ poll_log polls @ [BusRead CONFIGURATION bs, BusRead TEMP_RESULT ?tb]"
    by (simp add: l2 l1 l0)
  with x1 x2 nr rd t show ?thesis by blast
qed

lemma poll_ready:
  "bit (be16 (fst (i2c_write_then_readinto bus CONFIGURATION (hw w)))) 13 \<Longrightarrow>
     poll_data_ready bus w = Some (snd (readinto bus CONFIGURATION w))"
  by (subst poll_data_ready.simps) (simp add: read_status_eq)

lemma poll_not_ready:
  "\<not> bit (be16 (fst (i2c_write_then_readinto bus CONFIGURATION (hw w)))) 13 \<Longrightarrow>
     poll_data_ready bus w
       = poll_data_ready bus (sleep 0.001 (snd (readinto bus CONFIGURATION w)))"
  by (subst poll_data_ready.simps) (simp add: read_status_eq)

text \<open>
  The poll returns as soon as the device shows data-ready: when the first \<open>n\<close> reads of
  the configuration register show it clear and the next one shows it set, the result
  is produced, after exactly those reads. When no read along the way shows it set,
  the poll does not return.
\<close>

lemma sleep_sel: "hw (sleep s w) = hw w" "log (sleep s w) = log w @ [Sleep s]"
  by (simp_all add: sleep_def)

lemma readinto_sel:
  "hw (snd (readinto bus reg w)) = snd (i2c_write_then_readinto bus reg (hw w))"
  "log (snd (readinto bus reg w))
     = log w @ [BusRead reg (fst (i2c_write_then_readinto bus reg (hw w)))]"
  by (simp_all add: readinto_eq)

lemma poll_data_ready_returns:
  "(\<forall>p \<in> set (poll_reads bus n (hw w)). \<not> bit (be16 p) 13) \<Longrightarrow>
   i2c_write_then_readinto bus CONFIGURATION (hw_after_polls bus n (hw w)) = (bs, h) \<Longrightarrow>
   bit (be16 bs) 13 \<Longrightarrow>
     poll_data_ready bus w =
       Some \<lparr>hw = h,
             log = log w @ poll_log (poll_reads bus n (hw w)) @ [BusRead CONFIGURATION bs]\<rparr>"
proof (induction n arbitrary: w)
  case 0
  then show ?case
    by (subst poll_ready) (simp_all add: readinto_eq poll_log_def)
next
  case (Suc n)
  let ?w1 = "sleep 0.001 (snd (readinto bus CONFIGURATION w))"
  from Suc.prems(1)
  have nr: "\<not> bit (be16 (fst (i2c_write_then_readinto bus CONFIGURATION (hw w)))) 13"
    by simp
  have hw1: "hw ?w1 = snd (i2c_write_then_readinto bus CONFIGURATION (hw w))"
    by (simp add: sleep_def readinto_eq)
  have l1: "log ?w1 = log w @ [BusRead CONFIGURATION
                                (fst (i2c_write_then_readinto bus CONFIGURATION (hw w))),
                               Sleep 0.001]"
    by (simp add: sleep_def readinto_eq)
  have a: "\<forall>p \<in> set (poll_reads bus n (hw ?w1)). \<not> bit (be16 p) 13"
    using Suc.prems(1) by (simp add: sleep_sel readinto_sel)
  have b: "i2c_write_then_readinto bus CONFIGURATION (hw_after_polls bus n (hw ?w1)) = (bs, h)"
    using Suc.prems(2) by (simp add: sleep_sel readinto_sel)
  have "poll_data_ready bus w = poll_data_ready bus ?w1"
    using nr by (rule poll_not_ready)
  also have "\<dots> = Some \<lparr>hw = h,
             log = log ?w1 @ poll_log (poll_reads bus n (hw ?w1)) @ [BusRead CONFIGURATION bs]\<rparr>"
    by (rule Suc.IH [OF a b Suc.prems(3)])
  also have "log ?w1 @ poll_log (poll_reads bus n (hw ?w1)) @ [BusRead CONFIGURATION bs]
      = log w @ poll_log (poll_reads bus (Suc n) (hw w)) @ [BusRead CONFIGURATION bs]"
    by (simp add: sleep_sel readinto_sel poll_log_Cons)
  finally show ?case .
qed

lemma poll_data_ready_never_along:
  assumes never: "\<forall>k. \<not> bit (be16 (fst (i2c_write_then_readinto bus CONFIGURATION
                                     (hw_after_polls bus k (hw w))))) 13"
  shows "poll_data_ready bus w = None"
proof (rule ccontr)
  assume "poll_data_ready bus w \<noteq> None"
  then obtain w' where ret: "poll_data_ready bus w = Some w'" by blast
  let ?P = "\<lambda>(b :: 'a i2c_device) (w :: 'a world) (w' :: 'a world).
     (\<forall>k. \<not> bit (be16 (fst (i2c_write_then_readinto b CONFIGURATION
                               (hw_after_polls b k (hw w))))) 13) \<longrightarrow> False"
  have "?P bus w w'"
  proof (rule poll_data_ready.raw_induct [where P = ?P, OF _ ret])
    fix poll and b :: "'a i2c_device" and w w'
    assume IH: "\<And>b x y. poll b x = Some y \<Longrightarrow> ?P b x y"
      and step: "(case read_status b w of
                    (st, w1) \<Rightarrow> if \<not> snd (snd st) then poll b (sleep (1 / 10 ^ 3) w1)
                                else Some w1) = Some w'"
    show "?P b w w'"
    proof
      assume nv: "\<forall>k. \<not> bit (be16 (fst (i2c_write_then_readinto b CONFIGURATION
                                     (hw_after_polls b k (hw w))))) 13"
      from nv [rule_format, of 0]
      have "\<not> bit (be16 (fst (i2c_write_then_readinto b CONFIGURATION (hw w)))) 13"
        by simp
      with step have p: "poll b (sleep (1 / 10 ^ 3) (snd (readinto b CONFIGURATION w))) = Some w'"
        by (simp add: read_status_eq)
      have "\<forall>k. \<not> bit (be16 (fst (i2c_write_then_readinto b CONFIGURATION
               (hw_after_polls b k (hw (sleep (1 / 10 ^ 3) (snd (readinto b CONFIGURATION w)))))))) 13"
      proof
        fix k
        from nv [rule_format, of "Suc k"]
        show "\<not> bit (be16 (fst (i2c_write_then_readinto b CONFIGURATION
               (hw_after_polls b k (hw (sleep (1 / 10 ^ 3) (snd (readinto b CONFIGURATION w)))))))) 13"
          by (simp add: sleep_sel readinto_sel)
      qed
      with IH [OF p] show False by blast
    qed
  qed
  with never show False by blast
qed

lemma mode_write_field:
  "0 \<le> v \<Longrightarrow> v < 4 \<Longrightarrow> mode_field (mode_write c v) = v"
  "mode_write c v AND NOT (bit_mask 2 10) = c AND NOT (bit_mask 2 10)"
  by (simp_all add: mode_write_def field_update mode_field_written)

lemma mode_set_eq:
  "i2c_write_then_readinto bus CONFIGURATION (hw w) = (c, h1) \<Longrightarrow>
     mode_set bus v w =
       \<lparr>hw = i2c_write bus CONFIGURATION (be_bytes (mode_write (be16 c) v)) h1,
        log = log w @ [BusRead CONFIGURATION c,
                       BusWrite CONFIGURATION (be_bytes (mode_write (be16 c) v))]\<rparr>"
  by (simp add: mode_set_def RWBits_set_def readinto_eq writeout_def mode_write_def)

lemma set_mode_and_wait_returns:
  assumes c: "i2c_write_then_readinto bus CONFIGURATION (hw w) = (c, h1)"
    and h2: "h2 = i2c_write bus CONFIGURATION (be_bytes (mode_write (be16 c) v)) h1"
    and nr: "\<forall>p \<in> set (poll_reads bus n h2). \<not> bit (be16 p) 13"
    and bs: "i2c_write_then_readinto bus CONFIGURATION (hw_after_polls bus n h2) = (bs, h3)"
    and rd: "bit (be16 bs) 13"
    and tb: "i2c_write_then_readinto bus TEMP_RESULT h3 = (tb, h4)"
  shows "set_mode_and_wait_for_measurement bus v w =
           Some (real_of_int (sint (be16 tb)) * TMP117_RESOLUTION,
                 \<lparr>hw = h4,
                  log = log w @ [BusRead CONFIGURATION c,
                                 BusWrite CONFIGURATION (be_bytes (mode_write (be16 c) v))]
                          @ poll_log (poll_reads bus n h2)
                          @ [BusRead CONFIGURATION bs, BusRead TEMP_RESULT tb]\<rparr>)"
proof -
  let ?w0 = "mode_set bus v w"
  have w0: "?w0 = \<lparr>hw = h2,
        log = log w @ [BusRead CONFIGURATION c,
                       BusWrite CONFIGURATION (be_bytes (mode_write (be16 c) v))]\<rparr>"
    unfolding h2 by (rule mode_set_eq [OF c])
  have p: "poll_data_ready bus ?w0 =
       Some \<lparr>hw = h3,
             log = log ?w0 @ poll_log (poll_reads bus n (hw ?w0)) @ [BusRead CONFIGURATION bs]\<rparr>"
    by (rule poll_data_ready_returns) (simp_all add: w0 nr bs rd)
  show ?thesis
    unfolding set_mode_and_wait_for_measurement_def p
    by (simp add: raw_temperature_eq tb w0)
qed

lemma initialize_returns:
  assumes c: "i2c_write_then_readinto bus CONFIGURATION (hw w) = (c, h1)"
    and h2: "h2 = i2c_write bus CONFIGURATION
                    (be_bytes (mode_write (be16 c) CONTINUOUS_CONVERSION_MODE)) h1"
    and nr: "\<forall>p \<in> set (poll_reads bus n h2). \<not> bit (be16 p) 13"
    and bs: "i2c_write_then_readinto bus CONFIGURATION (hw_after_polls bus n h2) = (bs, h3)"
    and rd: "bit (be16 bs) 13"
    and tb: "i2c_write_then_readinto bus TEMP_RESULT h3 = (tb, h4)"
  shows "initialize bus w =
           Some \<lparr>hw = h4,
                 log = log w @ [BusRead CONFIGURATION c,
                                BusWrite CONFIGURATION
                                  (be_bytes (mode_write (be16 c) CONTINUOUS_CONVERSION_MODE))]
                         @ poll_log (poll_reads bus n h2)
                         @ [BusRead CONFIGURATION bs, BusRead TEMP_RESULT tb, Sleep 1]\<rparr>"
  unfolding initialize_def set_mode_and_wait_returns [OF c h2 nr bs rd tb]
  by (simp add: sleep_def)

lemma TMP117_init_runs:
  assumes i: "i2c_write_then_readinto bus DEVICE_ID (hw w) = (i, h0)"
    and ok: "uint (be16 i) = 0x0117"
    and c0: "i2c_write_then_readinto bus CONFIGURATION h0 = (c0, h1)"
    and w1: "w1 = \<lparr>hw = i2c_write bus CONFIGURATION (be_bytes (be16 c0 OR 2)) h1,
                  log = log w @ [BusRead DEVICE_ID i, BusRead CONFIGURATION c0,
                                 BusWrite CONFIGURATION (be_bytes (be16 c0 OR 2))]\<rparr>"
  shows "TMP117_init bus w =
           (case initialize bus w1 of None \<Rightarrow> None | Some w'' \<Rightarrow> Some (Inr (), w''))"
proof -
  have "reset bus (snd (readinto bus DEVICE_ID w)) = w1"
    unfolding w1
    by (simp add: reset_def soft_reset_set_def RWBit_set_def readinto_eq writeout_def i c0)
  then show ?thesis
    by (simp add: TMP117_init_def part_id_def ROUnaryStruct_get_H_def readinto_eq i ok
          DEVICE_ID_VALUE_def)
qed

section \<open>The simulated device in the poll\<close>

lemma sim_mode_set:
  "mode_set sim_bus v \<lparr>hw = \<lparr>regs = rs, busy = Suc n\<rparr>, log = l\<rparr> =
     \<lparr>hw = \<lparr>regs = rs(CONFIGURATION :=
               ((rs CONFIGURATION AND 0x1FFF) AND NOT (bit_mask 2 10))
                 OR (push_bit 10 (word_of_int v) AND bit_mask 2 10)), busy = n\<rparr>,
      log = l @ [BusRead CONFIGURATION (be_bytes (rs CONFIGURATION AND 0x1FFF)),
                 BusWrite CONFIGURATION
                   (be_bytes (((rs CONFIGURATION AND 0x1FFF) AND NOT (bit_mask 2 10))
                      OR (push_bit 10 (word_of_int v) AND bit_mask 2 10)))]\<rparr>"
  by (simp add: mode_set_def RWBits_set_def readinto_eq writeout_def sim_rd sim_read_def
        sim_write_def be16_be_bytes)

lemma sim_poll_busy:
  "poll_data_ready sim_bus \<lparr>hw = \<lparr>regs = rs, busy = Suc n\<rparr>, log = l\<rparr> =
     poll_data_ready sim_bus
       \<lparr>hw = \<lparr>regs = rs, busy = n\<rparr>,
        log = l @ [BusRead CONFIGURATION (be_bytes (rs CONFIGURATION AND 0x1FFF)), Sleep 0.001]\<rparr>"
proof -
  have "\<not> bit (rs CONFIGURATION AND 0x1FFF) 13"
    by (simp add: bit_simps)
  then show ?thesis
    by (subst poll_not_ready)
       (simp_all add: sim_rd sim_read_def be16_be_bytes readinto_eq sleep_def)
qed

lemma sim_poll_ready:
  "poll_data_ready sim_bus \<lparr>hw = \<lparr>regs = rs, busy = 0\<rparr>, log = l\<rparr> =
     Some \<lparr>hw = \<lparr>regs = rs, busy = 0\<rparr>,
        log = l @ [BusRead CONFIGURATION (be_bytes (rs CONFIGURATION OR 0x2000))]\<rparr>"
proof -
  have "bit (rs CONFIGURATION OR 0x2000) 13"
    by (simp add: bit_simps)
  then show ?thesis
    by (subst poll_ready)
       (simp_all add: sim_rd sim_read_def be16_be_bytes readinto_eq)
qed

lemma bit_mask_mode: "bit_mask 2 10 = 0x0C00"
  by (simp add: bit_mask_def mask_eq_exp_minus_1)

lemma sim_reset:
  "reset sim_bus \<lparr>hw = \<lparr>regs = rs, busy = Suc n\<rparr>, log = l\<rparr> =
     \<lparr>hw = \<lparr>regs = rs(CONFIGURATION := (rs CONFIGURATION AND 0x1FFF) OR 2), busy = n\<rparr>,
      log = l @ [BusRead CONFIGURATION (be_bytes (rs CONFIGURATION AND 0x1FFF)),
                 BusWrite CONFIGURATION (be_bytes ((rs CONFIGURATION AND 0x1FFF) OR 2))]\<rparr>"
  by (simp add: reset_def soft_reset_set_def RWBit_set_def readinto_eq writeout_def sim_rd
        sim_read_def sim_write_def be16_be_bytes)

lemma sim_initialize:
  "map_option log (initialize sim_bus (sim_world 0x0117 0x0220 128 (Suc (Suc 0)))) =
     Some [BusRead CONFIGURATION (0x02, 0x20), BusWrite CONFIGURATION (0x02, 0x20),
           BusRead CONFIGURATION (0x02, 0x20), Sleep 0.001,
           BusRead CONFIGURATION (0x22, 0x20), BusRead TEMP_RESULT (0x00, 0x80), Sleep 1]"
  by (simp add: initialize_def set_mode_and_wait_for_measurement_def sim_world_def
        CONTINUOUS_CONVERSION_MODE_def sleep_def
        sim_mode_set sim_poll_busy sim_poll_ready raw_temperature_eq sim_rd sim_read_def
        sim_regs_def reg_defs be_bytes_def be16_def bit_mask_mode TMP117_RESOLUTION_def)

lemma sim_read_config:
  "i2c_write_then_readinto sim_bus CONFIGURATION \<lparr>regs = rs, busy = Suc n\<rparr>
     = (be_bytes (rs CONFIGURATION AND 0x1FFF), \<lparr>regs = rs, busy = n\<rparr>)"
  "i2c_write_then_readinto sim_bus CONFIGURATION \<lparr>regs = rs, busy = 0\<rparr>
     = (be_bytes (rs CONFIGURATION OR 0x2000), \<lparr>regs = rs, busy = 0\<rparr>)"
  by (simp_all add: sim_rd sim_read_def)

lemma sim_read_other:
  "reg \<noteq> CONFIGURATION \<Longrightarrow>
     i2c_write_then_readinto sim_bus reg h = (be_bytes (regs h reg), h)"
  by (simp add: sim_rd sim_read_def)

lemma sim_write_eq:
  "i2c_write sim_bus reg bs \<lparr>regs = rs, busy = n\<rparr> = \<lparr>regs = rs(reg := be16 bs), busy = n\<rparr>"
  by (simp add: sim_rd sim_write_def)

lemma poll_log_replicate:
  "poll_log (replicate (Suc n) b) = [BusRead CONFIGURATION b, Sleep 0.001] @ poll_log (replicate n b)"
  by (simp add: poll_log_def)

lemma sim_poll_total:
  "poll_data_ready sim_bus \<lparr>hw = \<lparr>regs = rs, busy = n\<rparr>, log = l\<rparr> =
     Some \<lparr>hw = \<lparr>regs = rs, busy = 0\<rparr>,
           log = l @ poll_log (replicate n (be_bytes (rs CONFIGURATION AND 0x1FFF)))
                   @ [BusRead CONFIGURATION (be_bytes (rs CONFIGURATION OR 0x2000))]\<rparr>"
proof (induction n arbitrary: l)
  case 0
  show ?case by (simp add: sim_poll_ready poll_log_def)
next
  case (Suc n)
  show ?case
    unfolding sim_poll_busy Suc.IH poll_log_replicate by simp
qed

lemma sim_set_mode_total:
  "set_mode_and_wait_for_measurement sim_bus v \<lparr>hw = \<lparr>regs = rs, busy = Suc n\<rparr>, log = l\<rparr> =
     Some (real_of_int (sint (rs TEMP_RESULT)) * TMP117_RESOLUTION,
       \<lparr>hw = \<lparr>regs = rs(CONFIGURATION := mode_write (rs CONFIGURATION AND 0x1FFF) v),
                busy = 0\<rparr>,
        log = l @ [BusRead CONFIGURATION (be_bytes (rs CONFIGURATION AND 0x1FFF)),
                   BusWrite CONFIGURATION
                     (be_bytes (mode_write (rs CONFIGURATION AND 0x1FFF) v))]
                @ poll_log (replicate n
                    (be_bytes (mode_write (rs CONFIGURATION AND 0x1FFF) v AND 0x1FFF)))
                @ [BusRead CONFIGURATION
                     (be_bytes (mode_write (rs CONFIGURATION AND 0x1FFF) v OR 0x2000)),
                   BusRead TEMP_RESULT (be_bytes (rs TEMP_RESULT))]\<rparr>)"
  unfolding set_mode_and_wait_for_measurement_def sim_mode_set sim_poll_total
  by (simp add: raw_temperature_eq sim_read_other reg_defs be16_be_bytes mode_write_def)

lemma sim_initialize_total:
  "initialize sim_bus \<lparr>hw = \<lparr>regs = rs, busy = Suc n\<rparr>, log = l\<rparr> =
     Some \<lparr>hw = \<lparr>regs = rs(CONFIGURATION := mode_write (rs CONFIGURATION AND 0x1FFF) 0),
                busy = 0\<rparr>,
        log = l @ [BusRead CONFIGURATION (be_bytes (rs CONFIGURATION AND 0x1FFF)),
                   BusWrite CONFIGURATION
                     (be_bytes (mode_write (rs CONFIGURATION AND 0x1FFF) 0))]
                @ poll_log (replicate n
                    (be_bytes (mode_write (rs CONFIGURATION AND 0x1FFF) 0 AND 0x1FFF)))
                @ [BusRead CONFIGURATION
                     (be_bytes (mode_write (rs CONFIGURATION AND 0x1FFF) 0 OR 0x2000)),
                   BusRead TEMP_RESULT (be_bytes (rs TEMP_RESULT)), Sleep 1]\<rparr>"
  unfolding initialize_def CONTINUOUS_CONVERSION_MODE_def sim_set_mode_total
  by (simp add: sleep_def)

lemma sim_init_total:
  assumes "rs DEVICE_ID = 0x0117"
    and r: "r = (rs CONFIGURATION AND 0x1FFF) OR 2"
    and m: "m = mode_write (r AND 0x1FFF) 0"
  shows "TMP117_init sim_bus \<lparr>hw = \<lparr>regs = rs, busy = Suc (Suc n)\<rparr>, log = l\<rparr> =
     Some (Inr (),
       \<lparr>hw = \<lparr>regs = rs(CONFIGURATION := m), busy = 0\<rparr>,
        log = l @ [BusRead DEVICE_ID (be_bytes 0x0117),
                   BusRead CONFIGURATION (be_bytes (rs CONFIGURATION AND 0x1FFF)),
                   BusWrite CONFIGURATION (be_bytes r),
                   BusRead CONFIGURATION (be_bytes (r AND 0x1FFF)),
                   BusWrite CONFIGURATION (be_bytes m)]
                @ poll_log (replicate n (be_bytes (m AND 0x1FFF)))
                @ [BusRead CONFIGURATION (be_bytes (m OR 0x2000)),
                   BusRead TEMP_RESULT (be_bytes (rs TEMP_RESULT)), Sleep 1]\<rparr>)"
proof -
  have p: "part_id sim_bus \<lparr>hw = \<lparr>regs = rs, busy = Suc (Suc n)\<rparr>, log = l\<rparr> =
     (0x0117, \<lparr>hw = \<lparr>regs = rs, busy = Suc (Suc n)\<rparr>,
               log = l @ [BusRead DEVICE_ID (be_bytes 0x0117)]\<rparr>)"
    using assms(1)
    by (simp add: part_id_def ROUnaryStruct_get_H_def readinto_eq sim_read_other reg_defs
          be16_be_bytes)
  show ?thesis
    unfolding TMP117_init_def p prod.case sim_reset sim_initialize_total r m
    by (simp add: DEVICE_ID_VALUE_def reg_defs)
qed

lemmas sim_eval = sim_read_config [unfolded CONFIGURATION_def]
  sim_read_other [unfolded CONFIGURATION_def] sim_write_eq sim_world_def sim_regs_def
  reg_defs be_bytes_def be16_def mode_write_def bit_mask_mode

section \<open>Setting the measurement mode\<close>

text \<open>
  C10: for every mode value \<open>v\<close> of the two-bit mode field (shutdown included), the
  setter of \<open>measurement_mode\<close> writes \<open>v\<close> into the mode field and then polls. On every
  bus: when, after the mode write, the first \<open>n\<close> reads of the configuration register
  show data-ready clear and the next one shows it set, the setter returns, and what it
  did is the read of the configuration register, the write of it with the mode field
  set to \<open>v\<close> and the other fields as read, \<open>n\<close> polls each followed by a sleep of a
  millisecond, the read that saw data-ready set, and the read of the temperature. When
  no read after the mode write shows data-ready, the setter does not return. Whenever
  it returns, its trace has this shape. On the simulated device it returns for every
  countdown.
\<close>

theorem measurement_mode_set_polls:
  "(0 \<le> v \<and> v < 4 \<and> measurement_mode_set bus v w = Some w' \<longrightarrow>
      (\<exists>c x polls bs tb.
          log w' = log w @ [BusRead CONFIGURATION c, BusWrite CONFIGURATION (be_bytes x)]
                     @ poll_log polls @ [BusRead CONFIGURATION bs, BusRead TEMP_RESULT tb]
        \<and> mode_field x = v
        \<and> x AND NOT (bit_mask 2 10) = be16 c AND NOT (bit_mask 2 10)
        \<and> (\<forall>p \<in> set polls. \<not> bit (be16 p) 13) \<and> bit (be16 bs) 13))
   \<and> ((\<forall>h. \<not> bit (be16 (fst (i2c_write_then_readinto bus CONFIGURATION h))) 13) \<longrightarrow>
        measurement_mode_set bus v w = None)
   \<and> (0 \<le> v \<and> v < 4
        \<and> i2c_write_then_readinto bus CONFIGURATION (hw w) = (c, h1)
        \<and> h2 = i2c_write bus CONFIGURATION (be_bytes (mode_write (be16 c) v)) h1
        \<and> (\<forall>p \<in> set (poll_reads bus n h2). \<not> bit (be16 p) 13)
        \<and> i2c_write_then_readinto bus CONFIGURATION (hw_after_polls bus n h2) = (bs, h3)
        \<and> bit (be16 bs) 13
        \<and> i2c_write_then_readinto bus TEMP_RESULT h3 = (tb, h4)
      \<longrightarrow>
        measurement_mode_set bus v w =
          Some \<lparr>hw = h4,
                log = log w @ [BusRead CONFIGURATION c,
                               BusWrite CONFIGURATION (be_bytes (mode_write (be16 c) v))]
                        @ poll_log (poll_reads bus n h2)
                        @ [BusRead CONFIGURATION bs, BusRead TEMP_RESULT tb]\<rparr>
        \<and> mode_field (mode_write (be16 c) v) = v
        \<and> mode_write (be16 c) v AND NOT (bit_mask 2 10) = be16 c AND NOT (bit_mask 2 10))
   \<and> (i2c_write_then_readinto bus CONFIGURATION (hw w) = (c, h1)
        \<and> h2 = i2c_write bus CONFIGURATION (be_bytes (mode_write (be16 c) v)) h1
        \<and> (\<forall>k. \<not> bit (be16 (fst (i2c_write_then_readinto bus CONFIGURATION
                                        (hw_after_polls bus k h2)))) 13)
      \<longrightarrow> measurement_mode_set bus v w = None)
   \<and> (0 \<le> v \<and> v < 4 \<and> m = mode_write (rs CONFIGURATION AND 0x1FFF) v \<longrightarrow>
        measurement_mode_set sim_bus v \<lparr>hw = \<lparr>regs = rs, busy = Suc k\<rparr>, log = l\<rparr> =
          Some \<lparr>hw = \<lparr>regs = rs(CONFIGURATION := m), busy = 0\<rparr>,
                log = l @ [BusRead CONFIGURATION (be_bytes (rs CONFIGURATION AND 0x1FFF)),
                           BusWrite CONFIGURATION (be_bytes m)]
                        @ poll_log (replicate k (be_bytes (m AND 0x1FFF)))
                        @ [BusRead CONFIGURATION (be_bytes (m OR 0x2000)),
                           BusRead TEMP_RESULT (be_bytes (rs TEMP_RESULT))]\<rparr>
        \<and> mode_field m = v)"
proof (intro conjI impI)
  assume a: "0 \<le> v \<and> v < 4 \<and> measurement_mode_set bus v w = Some w'"
  then obtain t where "set_mode_and_wait_for_measurement bus v w = Some (t, w')"
    by (auto simp: measurement_mode_set_def split: option.splits)
  from set_mode_and_wait_log [OF this] obtain c x polls bs tb where
    l: "log w' = log w @ [BusRead CONFIGURATION c, BusWrite CONFIGURATION (be_bytes x)]
                      @ poll_log polls @ [BusRead CONFIGURATION bs, BusRead TEMP_RESULT tb]"
    and x1: "x AND NOT (bit_mask 2 10) = be16 c AND NOT (bit_mask 2 10)"
    and x2: "x AND bit_mask 2 10 = push_bit 10 (word_of_int v) AND bit_mask 2 10"
    and nr: "\<forall>p \<in> set polls. \<not> bit (be16 p) 13" and rd: "bit (be16 bs) 13"
    by blast
  from a x2 have "mode_field x = v" by (intro mode_field_written) simp_all
  with l x1 nr rd show "\<exists>c x polls bs tb.
          log w' = log w @ [BusRead CONFIGURATION c, BusWrite CONFIGURATION (be_bytes x)]
                     @ poll_log polls @ [BusRead CONFIGURATION bs, BusRead TEMP_RESULT tb]
        \<and> mode_field x = v
        \<and> x AND NOT (bit_mask 2 10) = be16 c AND NOT (bit_mask 2 10)
        \<and> (\<forall>p \<in> set polls. \<not> bit (be16 p) 13) \<and> bit (be16 bs) 13"
    by blast
next
  assume "\<forall>h. \<not> bit (be16 (fst (i2c_write_then_readinto bus CONFIGURATION h))) 13"
  then show "measurement_mode_set bus v w = None"
    by (simp add: measurement_mode_set_def set_mode_and_wait_for_measurement_def
          poll_data_ready_never)
next
  assume a: "0 \<le> v \<and> v < 4
        \<and> i2c_write_then_readinto bus CONFIGURATION (hw w) = (c, h1)
        \<and> h2 = i2c_write bus CONFIGURATION (be_bytes (mode_write (be16 c) v)) h1
        \<and> (\<forall>p \<in> set (poll_reads bus n h2). \<not> bit (be16 p) 13)
        \<and> i2c_write_then_readinto bus CONFIGURATION (hw_after_polls bus n h2) = (bs, h3)
        \<and> bit (be16 bs) 13
        \<and> i2c_write_then_readinto bus TEMP_RESULT h3 = (tb, h4)"
  from a have "set_mode_and_wait_for_measurement bus v w =
           Some (real_of_int (sint (be16 tb)) * TMP117_RESOLUTION,
                 \<lparr>hw = h4,
                  log = log w @ [BusRead CONFIGURATION c,
                                 BusWrite CONFIGURATION (be_bytes (mode_write (be16 c) v))]
                          @ poll_log (poll_reads bus n h2)
                          @ [BusRead CONFIGURATION bs, BusRead TEMP_RESULT tb]\<rparr>)"
    by (intro set_mode_and_wait_returns) blast+
  then show "measurement_mode_set bus v w =
          Some \<lparr>hw = h4,
                log = log w @ [BusRead CONFIGURATION c,
                               BusWrite CONFIGURATION (be_bytes (mode_write (be16 c) v))]
                        @ poll_log (poll_reads bus n h2)
                        @ [BusRead CONFIGURATION bs, BusRead TEMP_RESULT tb]\<rparr>"
    by (simp add: measurement_mode_set_def)
  from a show "mode_field (mode_write (be16 c) v) = v"
    by (simp add: mode_write_field)
  show "mode_write (be16 c) v AND NOT (bit_mask 2 10) = be16 c AND NOT (bit_mask 2 10)"
    by (rule mode_write_field)
next
  assume a: "i2c_write_then_readinto bus CONFIGURATION (hw w) = (c, h1)
        \<and> h2 = i2c_write bus CONFIGURATION (be_bytes (mode_write (be16 c) v)) h1
        \<and> (\<forall>k. \<not> bit (be16 (fst (i2c_write_then_readinto bus CONFIGURATION
                                        (hw_after_polls bus k h2)))) 13)"
  then have c: "i2c_write_then_readinto bus CONFIGURATION (hw w) = (c, h1)"
    and h2: "h2 = i2c_write bus CONFIGURATION (be_bytes (mode_write (be16 c) v)) h1"
    and nv: "\<forall>k. \<not> bit (be16 (fst (i2c_write_then_readinto bus CONFIGURATION
                                        (hw_after_polls bus k h2)))) 13"
    by blast+
  have hw: "hw (mode_set bus v w) = h2" unfolding h2 by (simp add: mode_set_eq [OF c])
  have "\<forall>k. \<not> bit (be16 (fst (i2c_write_then_readinto bus CONFIGURATION
                            (hw_after_polls bus k (hw (mode_set bus v w)))))) 13"
    using nv by (simp add: hw)
  then have "poll_data_ready bus (mode_set bus v w) = None"
    by (rule poll_data_ready_never_along)
  then show "measurement_mode_set bus v w = None"
    by (simp add: measurement_mode_set_def set_mode_and_wait_for_measurement_def)
next
  assume a: "0 \<le> v \<and> v < 4 \<and> m = mode_write (rs CONFIGURATION AND 0x1FFF) v"
  then show "measurement_mode_set sim_bus v \<lparr>hw = \<lparr>regs = rs, busy = Suc k\<rparr>, log = l\<rparr> =
          Some \<lparr>hw = \<lparr>regs = rs(CONFIGURATION := m), busy = 0\<rparr>,
                log = l @ [BusRead CONFIGURATION (be_bytes (rs CONFIGURATION AND 0x1FFF)),
                           BusWrite CONFIGURATION (be_bytes m)]
                        @ poll_log (replicate k (be_bytes (m AND 0x1FFF)))
                        @ [BusRead CONFIGURATION (be_bytes (m OR 0x2000)),
                           BusRead TEMP_RESULT (be_bytes (rs TEMP_RESULT))]\<rparr>"
    by (simp add: measurement_mode_set_def sim_set_mode_total)
  from a show "mode_field m = v" by (simp add: mode_write_field)
qed

theorem measurement_mode_set_polls_witness:
  "measurement_mode_set sim_bus 1 (sim_world 0x0117 0x0220 128 (Suc (Suc 0))) =
     Some \<lparr>hw = \<lparr>regs = (sim_regs 0x0117 0x0220 128)(CONFIGURATION := 0x0620), busy = 0\<rparr>,
           log = [BusRead CONFIGURATION (0x02, 0x20), BusWrite CONFIGURATION (0x06, 0x20),
                  BusRead CONFIGURATION (0x06, 0x20), Sleep 0.001,
                  BusRead CONFIGURATION (0x26, 0x20), BusRead TEMP_RESULT (0x00, 0x80)]\<rparr>
   \<and> (\<exists>c x polls bs tb.
          [BusRead CONFIGURATION (0x02, 0x20), BusWrite CONFIGURATION (0x06, 0x20),
           BusRead CONFIGURATION (0x06, 0x20), Sleep 0.001,
           BusRead CONFIGURATION (0x26, 0x20), BusRead TEMP_RESULT (0x00, 0x80)]
            = [BusRead CONFIGURATION c, BusWrite CONFIGURATION (be_bytes x)]
                     @ poll_log polls @ [BusRead CONFIGURATION bs, BusRead TEMP_RESULT tb]
        \<and> mode_field x = 1
        \<and> (\<forall>p \<in> set polls. \<not> bit (be16 p) 13) \<and> bit (be16 bs) 13)
   \<and> measurement_mode_set sim_bus 3 (sim_world 0x0117 0x0220 128 (Suc (Suc 0))) \<noteq> None
   \<and> measurement_mode_set stuck_bus 1 \<lparr>hw = (), log = []\<rparr> = None
   \<and> measurement_mode_set stuck_bus 0 \<lparr>hw = (), log = []\<rparr> = None"
proof -
  let ?W = "sim_world 0x0117 0x0220 128 (Suc (Suc 0))"
  let ?W' = "\<lparr>hw = \<lparr>regs = (sim_regs 0x0117 0x0220 128)(CONFIGURATION := 0x0620), busy = 0\<rparr>,
           log = [BusRead CONFIGURATION (0x02, 0x20), BusWrite CONFIGURATION (0x06, 0x20),
                  BusRead CONFIGURATION (0x06, 0x20), Sleep 0.001,
                  BusRead CONFIGURATION (0x26, 0x20), BusRead TEMP_RESULT (0x00, 0x80)]\<rparr>"
  have live: "measurement_mode_set sim_bus 1 ?W = Some ?W'"
    using measurement_mode_set_polls
      [where bus = sim_bus and v = 1 and w = ?W and c = "(0x02, 0x20)"
         and ?h1.0 = "\<lparr>regs = sim_regs 0x0117 0x0220 128, busy = Suc 0\<rparr>"
         and ?h2.0 = "\<lparr>regs = (sim_regs 0x0117 0x0220 128)(CONFIGURATION := 0x0620),
                       busy = Suc 0\<rparr>"
         and n = "Suc 0" and bs = "(0x26, 0x20)"
         and ?h3.0 = "\<lparr>regs = (sim_regs 0x0117 0x0220 128)(CONFIGURATION := 0x0620),
                       busy = 0\<rparr>"
         and tb = "(0x00, 0x80)"
         and ?h4.0 = "\<lparr>regs = (sim_regs 0x0117 0x0220 128)(CONFIGURATION := 0x0620),
                       busy = 0\<rparr>",
       THEN conjunct2, THEN conjunct2, THEN conjunct1]
    by (simp add: sim_eval poll_log_def)
  have shape: "\<exists>c x polls bs tb.
          log ?W' = log ?W @ [BusRead CONFIGURATION c, BusWrite CONFIGURATION (be_bytes x)]
                     @ poll_log polls @ [BusRead CONFIGURATION bs, BusRead TEMP_RESULT tb]
        \<and> mode_field x = 1
        \<and> x AND NOT (bit_mask 2 10) = be16 c AND NOT (bit_mask 2 10)
        \<and> (\<forall>p \<in> set polls. \<not> bit (be16 p) 13) \<and> bit (be16 bs) 13"
    using measurement_mode_set_polls
      [where bus = sim_bus and v = 1 and w = ?W and w' = ?W', THEN conjunct1] live
    by simp
  have other: "measurement_mode_set sim_bus 3 ?W \<noteq> None"
    using measurement_mode_set_polls
      [where v = 3 and rs = "sim_regs 0x0117 0x0220 128" and k = "Suc 0" and l = "[]"
         and m = "mode_write (sim_regs 0x0117 0x0220 128 CONFIGURATION AND 0x1FFF) 3",
       THEN conjunct2, THEN conjunct2, THEN conjunct2, THEN conjunct2]
    by (simp add: sim_world_def)
  have n: "\<forall>h. \<not> bit (be16 (fst (i2c_write_then_readinto stuck_bus CONFIGURATION h))) 13"
    by (simp add: stuck_bus_def be16_def)
  have stuck: "measurement_mode_set stuck_bus 1 \<lparr>hw = (), log = []\<rparr> = None"
    using measurement_mode_set_polls
      [where bus = stuck_bus and v = 1 and w = "\<lparr>hw = (), log = []\<rparr>",
       THEN conjunct2, THEN conjunct1] n
    by blast
  have along: "measurement_mode_set stuck_bus 0 \<lparr>hw = (), log = []\<rparr> = None"
    using measurement_mode_set_polls
      [where bus = stuck_bus and v = 0 and w = "\<lparr>hw = (), log = []\<rparr>"
         and c = "(0, 0)" and ?h1.0 = "()" and ?h2.0 = "()",
       THEN conjunct2, THEN conjunct2, THEN conjunct2, THEN conjunct1]
    by (simp add: stuck_bus_def be16_def)
  from shape have "\<exists>c x polls bs tb.
          [BusRead CONFIGURATION (0x02, 0x20), BusWrite CONFIGURATION (0x06, 0x20),
           BusRead CONFIGURATION (0x06, 0x20), Sleep 0.001,
           BusRead CONFIGURATION (0x26, 0x20), BusRead TEMP_RESULT (0x00, 0x80)]
            = [BusRead CONFIGURATION c, BusWrite CONFIGURATION (be_bytes x)]
                     @ poll_log polls @ [BusRead CONFIGURATION bs, BusRead TEMP_RESULT tb]
        \<and> mode_field x = 1
        \<and> (\<forall>p \<in> set polls. \<not> bit (be16 p) 13) \<and> bit (be16 bs) 13"
    by (simp add: sim_world_sel(1)) blast
  with live other stuck along show ?thesis by blast
qed

section \<open>Initialisation\<close>

text \<open>
  C2, as the claim states it, fails: on the simulated device the whole trace of
  \<open>initialize\<close> is the mode write, the polls, the temperature read and the sleep of one
  second. Its only write leaves the soft-reset bit clear, and its first two events are
  not the two events of \<open>reset\<close>.
\<close>

theorem initialize_does_not_reset:
  "map_option log (initialize sim_bus (sim_world 0x0117 0x0220 128 (Suc (Suc 0)))) =
     Some [BusRead CONFIGURATION (0x02, 0x20), BusWrite CONFIGURATION (0x02, 0x20),
           BusRead CONFIGURATION (0x02, 0x20), Sleep 0.001,
           BusRead CONFIGURATION (0x22, 0x20), BusRead TEMP_RESULT (0x00, 0x80), Sleep 1]
   \<and> log (reset sim_bus (sim_world 0x0117 0x0220 128 (Suc (Suc 0)))) =
       [BusRead CONFIGURATION (0x02, 0x20), BusWrite CONFIGURATION (0x02, 0x22)]
   \<and> map_option (take 2 \<circ> log) (initialize sim_bus (sim_world 0x0117 0x0220 128 (Suc (Suc 0))))
       \<noteq> Some (log (reset sim_bus (sim_world 0x0117 0x0220 128 (Suc (Suc 0)))))"
proof -
  have r: "log (reset sim_bus (sim_world 0x0117 0x0220 128 (Suc (Suc 0)))) =
       [BusRead CONFIGURATION (0x02, 0x20), BusWrite CONFIGURATION (0x02, 0x22)]"
    by (simp add: sim_world_def sim_reset sim_regs_def reg_defs be_bytes_def)
  from sim_initialize obtain w' where
    i: "initialize sim_bus (sim_world 0x0117 0x0220 128 (Suc (Suc 0))) = Some w'"
    and l: "log w' = [BusRead CONFIGURATION (0x02, 0x20), BusWrite CONFIGURATION (0x02, 0x20),
           BusRead CONFIGURATION (0x02, 0x20), Sleep 0.001,
           BusRead CONFIGURATION (0x22, 0x20), BusRead TEMP_RESULT (0x00, 0x80), Sleep 1]"
    by auto
  show ?thesis using sim_initialize by (simp add: i l r)
qed

text \<open>
  C2, amended: \<open>initialize\<close> performs, in order, the mode write to continuous mode with
  the wait for data-ready and the temperature read, and then the sleep of one second;
  it does not call \<open>reset\<close>. It is the constructor that, after reading the device id,
  performs \<open>reset\<close> (the write that sets the soft-reset bit) and then \<open>initialize\<close>.
  On every bus \<open>initialize\<close> returns, with exactly this trace, when the device shows
  data-ready after finitely many polls, and the constructor returns exactly when
  \<open>initialize\<close> does after the reset; on the simulated device both return for every
  countdown.
\<close>

theorem initialize_sequence:
  "(initialize bus w = Some w' \<longrightarrow>
      (\<exists>c x polls bs tb.
          log w' = log w @ [BusRead CONFIGURATION c, BusWrite CONFIGURATION (be_bytes x)]
                     @ poll_log polls
                     @ [BusRead CONFIGURATION bs, BusRead TEMP_RESULT tb, Sleep 1]
        \<and> mode_field x = CONTINUOUS_CONVERSION_MODE
        \<and> x AND NOT (bit_mask 2 10) = be16 c AND NOT (bit_mask 2 10)
        \<and> (\<forall>p \<in> set polls. \<not> bit (be16 p) 13) \<and> bit (be16 bs) 13))
   \<and> (TMP117_init bus w = Some (Inr (), w'') \<longrightarrow>
      (\<exists>i c0 w1.
          log w1 = log w @ [BusRead DEVICE_ID i, BusRead CONFIGURATION c0,
                           BusWrite CONFIGURATION (be_bytes (be16 c0 OR 2))]
        \<and> initialize bus w1 = Some w''))
   \<and> (i2c_write_then_readinto bus CONFIGURATION (hw w) = (c, h1)
        \<and> h2 = i2c_write bus CONFIGURATION
                   (be_bytes (mode_write (be16 c) CONTINUOUS_CONVERSION_MODE)) h1
        \<and> (\<forall>p \<in> set (poll_reads bus n h2). \<not> bit (be16 p) 13)
        \<and> i2c_write_then_readinto bus CONFIGURATION (hw_after_polls bus n h2) = (bs, h3)
        \<and> bit (be16 bs) 13
        \<and> i2c_write_then_readinto bus TEMP_RESULT h3 = (tb, h4)
      \<longrightarrow>
        initialize bus w =
          Some \<lparr>hw = h4,
                log = log w @ [BusRead CONFIGURATION c,
                               BusWrite CONFIGURATION
                                 (be_bytes (mode_write (be16 c) CONTINUOUS_CONVERSION_MODE))]
                        @ poll_log (poll_reads bus n h2)
                        @ [BusRead CONFIGURATION bs, BusRead TEMP_RESULT tb, Sleep 1]\<rparr>
        \<and> mode_field (mode_write (be16 c) CONTINUOUS_CONVERSION_MODE)
            = CONTINUOUS_CONVERSION_MODE
        \<and> mode_write (be16 c) CONTINUOUS_CONVERSION_MODE AND NOT (bit_mask 2 10)
            = be16 c AND NOT (bit_mask 2 10))
   \<and> (i2c_write_then_readinto bus DEVICE_ID (hw w) = (i, g0)
        \<and> uint (be16 i) = 0x0117
        \<and> i2c_write_then_readinto bus CONFIGURATION g0 = (c0, g1)
        \<and> w1 = \<lparr>hw = i2c_write bus CONFIGURATION (be_bytes (be16 c0 OR 2)) g1,
                  log = log w @ [BusRead DEVICE_ID i, BusRead CONFIGURATION c0,
                                 BusWrite CONFIGURATION (be_bytes (be16 c0 OR 2))]\<rparr>
      \<longrightarrow>
        TMP117_init bus w =
          (case initialize bus w1 of None \<Rightarrow> None | Some w2 \<Rightarrow> Some (Inr (), w2)))
   \<and> (m = mode_write (rs CONFIGURATION AND 0x1FFF) CONTINUOUS_CONVERSION_MODE \<longrightarrow>
        initialize sim_bus \<lparr>hw = \<lparr>regs = rs, busy = Suc k\<rparr>, log = l\<rparr> =
          Some \<lparr>hw = \<lparr>regs = rs(CONFIGURATION := m), busy = 0\<rparr>,
                log = l @ [BusRead CONFIGURATION (be_bytes (rs CONFIGURATION AND 0x1FFF)),
                           BusWrite CONFIGURATION (be_bytes m)]
                        @ poll_log (replicate k (be_bytes (m AND 0x1FFF)))
                        @ [BusRead CONFIGURATION (be_bytes (m OR 0x2000)),
                           BusRead TEMP_RESULT (be_bytes (rs TEMP_RESULT)), Sleep 1]\<rparr>)
   \<and> (rs DEVICE_ID = 0x0117
        \<and> r = (rs CONFIGURATION AND 0x1FFF) OR 2
        \<and> m' = mode_write (r AND 0x1FFF) CONTINUOUS_CONVERSION_MODE \<longrightarrow>
        TMP117_init sim_bus \<lparr>hw = \<lparr>regs = rs, busy = Suc (Suc k)\<rparr>, log = l\<rparr> =
          Some (Inr (),
            \<lparr>hw = \<lparr>regs = rs(CONFIGURATION := m'), busy = 0\<rparr>,
             log = l @ [BusRead DEVICE_ID (be_bytes 0x0117),
                        BusRead CONFIGURATION (be_bytes (rs CONFIGURATION AND 0x1FFF)),
                        BusWrite CONFIGURATION (be_bytes r),
                        BusRead CONFIGURATION (be_bytes (r AND 0x1FFF)),
                        BusWrite CONFIGURATION (be_bytes m')]
                     @ poll_log (replicate k (be_bytes (m' AND 0x1FFF)))
                     @ [BusRead CONFIGURATION (be_bytes (m' OR 0x2000)),
                        BusRead TEMP_RESULT (be_bytes (rs TEMP_RESULT)), Sleep 1]\<rparr>))"
proof (intro conjI impI)
  assume "initialize bus w = Some w'"
  then obtain t w0 where
    s: "set_mode_and_wait_for_measurement bus CONTINUOUS_CONVERSION_MODE w = Some (t, w0)"
    and w': "w' = sleep 1 w0"
    by (auto simp: initialize_def split: option.splits)
  from set_mode_and_wait_log [OF s] obtain c x polls bs tb where
    l: "log w0 = log w @ [BusRead CONFIGURATION c, BusWrite CONFIGURATION (be_bytes x)]
                      @ poll_log polls @ [BusRead CONFIGURATION bs, BusRead TEMP_RESULT tb]"
    and x1: "x AND NOT (bit_mask 2 10) = be16 c AND NOT (bit_mask 2 10)"
    and x2: "x AND bit_mask 2 10
               = push_bit 10 (word_of_int CONTINUOUS_CONVERSION_MODE) AND bit_mask 2 10"
    and nr: "\<forall>p \<in> set polls. \<not> bit (be16 p) 13" and rd: "bit (be16 bs) 13"
    by blast
  from x2 have m: "mode_field x = CONTINUOUS_CONVERSION_MODE"
    by (intro mode_field_written) (simp_all add: CONTINUOUS_CONVERSION_MODE_def)
  have "log w' = log w @ [BusRead CONFIGURATION c, BusWrite CONFIGURATION (be_bytes x)]
                     @ poll_log polls
                     @ [BusRead CONFIGURATION bs, BusRead TEMP_RESULT tb, Sleep 1]"
    by (simp add: w' sleep_def l)
  with m x1 nr rd show "\<exists>c x polls bs tb.
          log w' = log w @ [BusRead CONFIGURATION c, BusWrite CONFIGURATION (be_bytes x)]
                     @ poll_log polls
                     @ [BusRead CONFIGURATION bs, BusRead TEMP_RESULT tb, Sleep 1]
        \<and> mode_field x = CONTINUOUS_CONVERSION_MODE
        \<and> x AND NOT (bit_mask 2 10) = be16 c AND NOT (bit_mask 2 10)
        \<and> (\<forall>p \<in> set polls. \<not> bit (be16 p) 13) \<and> bit (be16 bs) 13"
    by blast
next
  assume a: "TMP117_init bus w = Some (Inr (), w'')"
  let ?i = "fst (i2c_write_then_readinto bus DEVICE_ID (hw w))"
  let ?w0 = "snd (readinto bus DEVICE_ID w)"
  let ?c0 = "fst (i2c_write_then_readinto bus CONFIGURATION (hw ?w0))"
  from a have i: "initialize bus (reset bus ?w0) = Some w''"
    by (auto simp: TMP117_init_def part_id_def ROUnaryStruct_get_H_def readinto_eq
          split: if_splits option.splits)
  have "log (reset bus ?w0) = log w @ [BusRead DEVICE_ID ?i, BusRead CONFIGURATION ?c0,
                           BusWrite CONFIGURATION (be_bytes (be16 ?c0 OR 2))]"
    by (simp add: reset_log) (simp add: readinto_eq)
  with i show "\<exists>i c0 w1.
          log w1 = log w @ [BusRead DEVICE_ID i, BusRead CONFIGURATION c0,
                           BusWrite CONFIGURATION (be_bytes (be16 c0 OR 2))]
        \<and> initialize bus w1 = Some w''"
    by blast
next
  assume a: "i2c_write_then_readinto bus CONFIGURATION (hw w) = (c, h1)
        \<and> h2 = i2c_write bus CONFIGURATION
                   (be_bytes (mode_write (be16 c) CONTINUOUS_CONVERSION_MODE)) h1
        \<and> (\<forall>p \<in> set (poll_reads bus n h2). \<not> bit (be16 p) 13)
        \<and> i2c_write_then_readinto bus CONFIGURATION (hw_after_polls bus n h2) = (bs, h3)
        \<and> bit (be16 bs) 13
        \<and> i2c_write_then_readinto bus TEMP_RESULT h3 = (tb, h4)"
  then show "initialize bus w =
          Some \<lparr>hw = h4,
                log = log w @ [BusRead CONFIGURATION c,
                               BusWrite CONFIGURATION
                                 (be_bytes (mode_write (be16 c) CONTINUOUS_CONVERSION_MODE))]
                        @ poll_log (poll_reads bus n h2)
                        @ [BusRead CONFIGURATION bs, BusRead TEMP_RESULT tb, Sleep 1]\<rparr>"
    by (intro initialize_returns) blast+
  show "mode_field (mode_write (be16 c) CONTINUOUS_CONVERSION_MODE)
            = CONTINUOUS_CONVERSION_MODE"
    by (rule mode_write_field) (simp_all add: CONTINUOUS_CONVERSION_MODE_def)
  show "mode_write (be16 c) CONTINUOUS_CONVERSION_MODE AND NOT (bit_mask 2 10)
            = be16 c AND NOT (bit_mask 2 10)"
    by (rule mode_write_field)
next
  assume "i2c_write_then_readinto bus DEVICE_ID (hw w) = (i, g0)
        \<and> uint (be16 i) = 0x0117
        \<and> i2c_write_then_readinto bus CONFIGURATION g0 = (c0, g1)
        \<and> w1 = \<lparr>hw = i2c_write bus CONFIGURATION (be_bytes (be16 c0 OR 2)) g1,
                  log = log w @ [BusRead DEVICE_ID i, BusRead CONFIGURATION c0,
                                 BusWrite CONFIGURATION (be_bytes (be16 c0 OR 2))]\<rparr>"
  then show "TMP117_init bus w =
          (case initialize bus w1 of None \<Rightarrow> None | Some w2 \<Rightarrow> Some (Inr (), w2))"
    by (intro TMP117_init_runs) blast+
next
  assume "m = mode_write (rs CONFIGURATION AND 0x1FFF) CONTINUOUS_CONVERSION_MODE"
  then show "initialize sim_bus \<lparr>hw = \<lparr>regs = rs, busy = Suc k\<rparr>, log = l\<rparr> =
          Some \<lparr>hw = \<lparr>regs = rs(CONFIGURATION := m), busy = 0\<rparr>,
                log = l @ [BusRead CONFIGURATION (be_bytes (rs CONFIGURATION AND 0x1FFF)),
                           BusWrite CONFIGURATION (be_bytes m)]
                        @ poll_log (replicate k (be_bytes (m AND 0x1FFF)))
                        @ [BusRead CONFIGURATION (be_bytes (m OR 0x2000)),
                           BusRead TEMP_RESULT (be_bytes (rs TEMP_RESULT)), Sleep 1]\<rparr>"
    by (simp add: sim_initialize_total CONTINUOUS_CONVERSION_MODE_def)
next
  assume "rs DEVICE_ID = 0x0117
        \<and> r = (rs CONFIGURATION AND 0x1FFF) OR 2
        \<and> m' = mode_write (r AND 0x1FFF) CONTINUOUS_CONVERSION_MODE"
  then show "TMP117_init sim_bus \<lparr>hw = \<lparr>regs = rs, busy = Suc (Suc k)\<rparr>, log = l\<rparr> =
          Some (Inr (),
            \<lparr>hw = \<lparr>regs = rs(CONFIGURATION := m'), busy = 0\<rparr>,
             log = l @ [BusRead DEVICE_ID (be_bytes 0x0117),
                        BusRead CONFIGURATION (be_bytes (rs CONFIGURATION AND 0x1FFF)),
                        BusWrite CONFIGURATION (be_bytes r),
                        BusRead CONFIGURATION (be_bytes (r AND 0x1FFF)),
                        BusWrite CONFIGURATION (be_bytes m')]
                     @ poll_log (replicate k (be_bytes (m' AND 0x1FFF)))
                     @ [BusRead CONFIGURATION (be_bytes (m' OR 0x2000)),
                        BusRead TEMP_RESULT (be_bytes (rs TEMP_RESULT)), Sleep 1]\<rparr>)"
    by (intro sim_init_total) (simp_all add: CONTINUOUS_CONVERSION_MODE_def)
qed

theorem initialize_sequence_witness:
  "initialize sim_bus (sim_world 0x0117 0x0220 128 (Suc (Suc 0))) =
     Some \<lparr>hw = \<lparr>regs = (sim_regs 0x0117 0x0220 128)(CONFIGURATION := 0x0220), busy = 0\<rparr>,
           log = [BusRead CONFIGURATION (0x02, 0x20), BusWrite CONFIGURATION (0x02, 0x20),
                  BusRead CONFIGURATION (0x02, 0x20), Sleep 0.001,
                  BusRead CONFIGURATION (0x22, 0x20), BusRead TEMP_RESULT (0x00, 0x80),
                  Sleep 1]\<rparr>
   \<and> (\<exists>c x polls bs tb.
          [BusRead CONFIGURATION (0x02, 0x20), BusWrite CONFIGURATION (0x02, 0x20),
           BusRead CONFIGURATION (0x02, 0x20), Sleep 0.001,
           BusRead CONFIGURATION (0x22, 0x20), BusRead TEMP_RESULT (0x00, 0x80), Sleep 1]
            = [BusRead CONFIGURATION c, BusWrite CONFIGURATION (be_bytes x)]
                @ poll_log polls
                @ [BusRead CONFIGURATION bs, BusRead TEMP_RESULT tb, Sleep 1]
        \<and> mode_field x = 0
        \<and> (\<forall>p \<in> set polls. \<not> bit (be16 p) 13) \<and> bit (be16 bs) 13)
   \<and> TMP117_init sim_bus (sim_world 0x0117 0x0220 128 (Suc (Suc (Suc 0)))) =
       Some (Inr (),
         \<lparr>hw = \<lparr>regs = (sim_regs 0x0117 0x0220 128)(CONFIGURATION := 0x0222), busy = 0\<rparr>,
          log = [BusRead DEVICE_ID (0x01, 0x17),
                 BusRead CONFIGURATION (0x02, 0x20), BusWrite CONFIGURATION (0x02, 0x22),
                 BusRead CONFIGURATION (0x02, 0x22), BusWrite CONFIGURATION (0x02, 0x22),
                 BusRead CONFIGURATION (0x02, 0x22), Sleep 0.001,
                 BusRead CONFIGURATION (0x22, 0x22), BusRead TEMP_RESULT (0x00, 0x80),
                 Sleep 1]\<rparr>)
   \<and> (\<exists>i c0 w1.
          log w1 = [BusRead DEVICE_ID i, BusRead CONFIGURATION c0,
                    BusWrite CONFIGURATION (be_bytes (be16 c0 OR 2))]
        \<and> initialize sim_bus w1 =
            Some \<lparr>hw = \<lparr>regs = (sim_regs 0x0117 0x0220 128)(CONFIGURATION := 0x0222),
                         busy = 0\<rparr>,
                  log = [BusRead DEVICE_ID (0x01, 0x17),
                         BusRead CONFIGURATION (0x02, 0x20), BusWrite CONFIGURATION (0x02, 0x22),
                         BusRead CONFIGURATION (0x02, 0x22), BusWrite CONFIGURATION (0x02, 0x22),
                         BusRead CONFIGURATION (0x02, 0x22), Sleep 0.001,
                         BusRead CONFIGURATION (0x22, 0x22), BusRead TEMP_RESULT (0x00, 0x80),
                         Sleep 1]\<rparr>)"
proof -
  let ?W = "sim_world 0x0117 0x0220 128 (Suc (Suc 0))"
  let ?W' = "\<lparr>hw = \<lparr>regs = (sim_regs 0x0117 0x0220 128)(CONFIGURATION := 0x0220), busy = 0\<rparr>,
           log = [BusRead CONFIGURATION (0x02, 0x20), BusWrite CONFIGURATION (0x02, 0x20),
                  BusRead CONFIGURATION (0x02, 0x20), Sleep 0.001,
                  BusRead CONFIGURATION (0x22, 0x20), BusRead TEMP_RESULT (0x00, 0x80),
                  Sleep 1]\<rparr>"
  let ?V = "sim_world 0x0117 0x0220 128 (Suc (Suc (Suc 0)))"
  let ?V1 = "\<lparr>hw = \<lparr>regs = (sim_regs 0x0117 0x0220 128)(CONFIGURATION := 0x0222),
                     busy = Suc (Suc 0)\<rparr>,
              log = [BusRead DEVICE_ID (0x01, 0x17), BusRead CONFIGURATION (0x02, 0x20),
                     BusWrite CONFIGURATION (0x02, 0x22)]\<rparr>"
  let ?V' = "\<lparr>hw = \<lparr>regs = (sim_regs 0x0117 0x0220 128)(CONFIGURATION := 0x0222), busy = 0\<rparr>,
          log = [BusRead DEVICE_ID (0x01, 0x17),
                 BusRead CONFIGURATION (0x02, 0x20), BusWrite CONFIGURATION (0x02, 0x22),
                 BusRead CONFIGURATION (0x02, 0x22), BusWrite CONFIGURATION (0x02, 0x22),
                 BusRead CONFIGURATION (0x02, 0x22), Sleep 0.001,
                 BusRead CONFIGURATION (0x22, 0x22), BusRead TEMP_RESULT (0x00, 0x80),
                 Sleep 1]\<rparr>"
  have live: "initialize sim_bus ?W = Some ?W'"
    using initialize_sequence
      [where bus = sim_bus and w = ?W and c = "(0x02, 0x20)"
         and ?h1.0 = "\<lparr>regs = sim_regs 0x0117 0x0220 128, busy = Suc 0\<rparr>"
         and ?h2.0 = "\<lparr>regs = (sim_regs 0x0117 0x0220 128)(CONFIGURATION := 0x0220),
                       busy = Suc 0\<rparr>"
         and n = "Suc 0" and bs = "(0x22, 0x20)"
         and ?h3.0 = "\<lparr>regs = (sim_regs 0x0117 0x0220 128)(CONFIGURATION := 0x0220),
                       busy = 0\<rparr>"
         and tb = "(0x00, 0x80)"
         and ?h4.0 = "\<lparr>regs = (sim_regs 0x0117 0x0220 128)(CONFIGURATION := 0x0220),
                       busy = 0\<rparr>",
       THEN conjunct2, THEN conjunct2, THEN conjunct1]
    by (simp add: sim_eval poll_log_def CONTINUOUS_CONVERSION_MODE_def)
  have shape: "\<exists>c x polls bs tb.
          log ?W' = log ?W @ [BusRead CONFIGURATION c, BusWrite CONFIGURATION (be_bytes x)]
                     @ poll_log polls
                     @ [BusRead CONFIGURATION bs, BusRead TEMP_RESULT tb, Sleep 1]
        \<and> mode_field x = CONTINUOUS_CONVERSION_MODE
        \<and> x AND NOT (bit_mask 2 10) = be16 c AND NOT (bit_mask 2 10)
        \<and> (\<forall>p \<in> set polls. \<not> bit (be16 p) 13) \<and> bit (be16 bs) 13"
    using initialize_sequence [where bus = sim_bus and w = ?W and w' = ?W', THEN conjunct1]
      live
    by simp
  have init1: "initialize sim_bus ?V1 = Some ?V'"
    using initialize_sequence
      [where rs = "(sim_regs 0x0117 0x0220 128)(CONFIGURATION := 0x0222)" and k = "Suc 0"
         and l = "[BusRead DEVICE_ID (0x01, 0x17), BusRead CONFIGURATION (0x02, 0x20),
                   BusWrite CONFIGURATION (0x02, 0x22)]"
         and m = "0x0222",
       THEN conjunct2, THEN conjunct2, THEN conjunct2, THEN conjunct2, THEN conjunct1]
    by (simp add: sim_eval poll_log_def CONTINUOUS_CONVERSION_MODE_def)
  have run: "TMP117_init sim_bus ?V =
      (case initialize sim_bus ?V1 of None \<Rightarrow> None | Some w2 \<Rightarrow> Some (Inr (), w2))"
    using initialize_sequence
      [where bus = sim_bus and w = ?V and i = "(0x01, 0x17)"
         and ?g0.0 = "\<lparr>regs = sim_regs 0x0117 0x0220 128, busy = Suc (Suc (Suc 0))\<rparr>"
         and ?c0.0 = "(0x02, 0x20)"
         and ?g1.0 = "\<lparr>regs = sim_regs 0x0117 0x0220 128, busy = Suc (Suc 0)\<rparr>"
         and ?w1.0 = ?V1,
       THEN conjunct2, THEN conjunct2, THEN conjunct2, THEN conjunct1]
    by (simp add: sim_eval)
  have ctor: "TMP117_init sim_bus ?V = Some (Inr (), ?V')"
    unfolding run init1 by simp
  have ctor': "TMP117_init sim_bus ?V = Some (Inr (), ?V')"
    using initialize_sequence
      [where rs = "sim_regs 0x0117 0x0220 128" and k = "Suc 0" and l = "[]"
         and r = "0x0222" and m' = "0x0222",
       THEN conjunct2, THEN conjunct2, THEN conjunct2, THEN conjunct2, THEN conjunct2]
    by (simp add: sim_eval poll_log_def CONTINUOUS_CONVERSION_MODE_def)
  have pre: "\<exists>i c0 w1.
          log w1 = log ?V @ [BusRead DEVICE_ID i, BusRead CONFIGURATION c0,
                            BusWrite CONFIGURATION (be_bytes (be16 c0 OR 2))]
        \<and> initialize sim_bus w1 = Some ?V'"
    using initialize_sequence [where bus = sim_bus and w = ?V and w'' = ?V',
       THEN conjunct2, THEN conjunct1] ctor
    by simp
  from shape have shape': "\<exists>c x polls bs tb.
          [BusRead CONFIGURATION (0x02, 0x20), BusWrite CONFIGURATION (0x02, 0x20),
           BusRead CONFIGURATION (0x02, 0x20), Sleep 0.001,
           BusRead CONFIGURATION (0x22, 0x20), BusRead TEMP_RESULT (0x00, 0x80), Sleep 1]
            = [BusRead CONFIGURATION c, BusWrite CONFIGURATION (be_bytes x)]
                @ poll_log polls
                @ [BusRead CONFIGURATION bs, BusRead TEMP_RESULT tb, Sleep 1]
        \<and> mode_field x = 0
        \<and> (\<forall>p \<in> set polls. \<not> bit (be16 p) 13) \<and> bit (be16 bs) 13"
    by (simp add: sim_world_sel(1) CONTINUOUS_CONVERSION_MODE_def) blast
  from pre have pre': "\<exists>i c0 w1.
          log w1 = [BusRead DEVICE_ID i, BusRead CONFIGURATION c0,
                    BusWrite CONFIGURATION (be_bytes (be16 c0 OR 2))]
        \<and> initialize sim_bus w1 = Some ?V'"
    by (simp add: sim_world_sel(1))
  from live shape' ctor pre' show ?thesis by blast
qed

end
